theory Spec2Isabelle
  imports Main "HOL-Library.List_Lexorder" "HOL-Library.Char_ord"
begin

section \<open>Values, exceptions and time\<close>

text \<open>
  JSON texts are represented by the values \<^verbatim>\<open>json.loads\<close> returns for them;
  \<^verbatim>\<open>json.dumps\<close> followed by \<^verbatim>\<open>json.loads\<close> gives the value back, so a
  column holding JSON text is modelled by the value it encodes.
\<close>

datatype json =
    JNull
  | JBool bool
  | JNum int
  | JStr string
  | JArr "json list"
  | JObj "(string \<times> json) list"

text \<open>
  The exceptions the modelled code can meet. \<open>IntegrityError\<close> carries the message of
  the database driver, which \<^verbatim>\<open>is_duplicate_entry_error\<close> inspects.
\<close>

datatype exn =
    IntegrityError string
  | OperationalError
  | KeyError
  | IndexError
  | TypeError
  | NameError
  | AttributeError

text \<open>
  A \<^verbatim>\<open>datetime\<close> is a count of microseconds; \<^verbatim>\<open>timedelta(seconds=n)\<close> is
  \<open>n\<close> million of them.
\<close>

definition timedelta :: "int \<Rightarrow> int" where
  "timedelta seconds = seconds * 1000000"

text \<open>\<^verbatim>\<open>class Priority(IntFlag)\<close> of db.py.\<close>

definition MARKETING :: int where "MARKETING = 1"
definition LOW :: int where "LOW = 2"
definition NORMAL :: int where "NORMAL = 3"
definition PRIORITY :: int where "PRIORITY = 4"
definition ALWAYS :: int where "ALWAYS = 5"

section \<open>The tables of db.py\<close>

text \<open>
  A row of \<^verbatim>\<open>yo_notifications\<close>. The type parameter is the type of the \<open>nid\<close>
  member: a stored row has a \<open>string\<close>, the keyword arguments of
  \<^verbatim>\<open>create_notification\<close> have a \<open>string option\<close> (the key may be absent).
  \<open>from_username\<close>, \<open>json_data\<close> and \<open>trx_id\<close> are nullable columns. The
  time stamp columns (\<^verbatim>\<open>created\<close>, \<^verbatim>\<open>updated\<close>, \<^verbatim>\<open>created_at\<close>) are
  filled by the engine and read by no operation modelled here.
\<close>

record 'i notification =
  nid :: 'i
  notify_type :: string
  to_username :: string
  from_username :: "string option"
  json_data :: "json option"
  priority_level :: int
  trx_id :: "string option"

text \<open>
  A row of \<^verbatim>\<open>yo_actions\<close>, as \<^verbatim>\<open>mark_sent\<close> writes it (the key \<^verbatim>\<open>aid\<close> is
  assigned by the engine). The columns \<^verbatim>\<open>nid\<close>, \<^verbatim>\<open>to_username\<close> and
  \<^verbatim>\<open>priority_level\<close> carry the prefix \<open>action_\<close> here, since a notification has
  members of the same names.
\<close>

record action =
  action_nid :: string
  action_to_username :: string
  transport :: string
  action_priority_level :: int
  status :: string
  created_at :: int

text \<open>One transport entry of a user's settings, and the settings of a user.\<close>

record transport_data =
  notification_types :: "string list"
  sub_data :: json

type_synonym transports = "(string \<times> transport_data) list"

text \<open>
  The row of \<^verbatim>\<open>yo_chain_status\<close>. \<open>last_processed_block\<close> and
  \<open>active_follower_id\<close> can hold NULL (both parameters default to \<^verbatim>\<open>None\<close>); the two
  time stamps are set by every insert and update.
\<close>

record chain_status =
  last_processed_block :: "int option"
  last_processed_time :: int
  lock_expires :: int
  active_follower_id :: "string option"

text \<open>
  The database: its tables in insertion order, and \<open>execute_raises\<close>, the fault
  under which every \<^verbatim>\<open>conn.execute\<close> raises (acquiring the connection succeeds).
\<close>

record yo_database =
  notifications :: "string notification list"
  actions :: "action list"
  user_settings :: "(string \<times> transports) list"
  chain_status_table :: "chain_status list"
  execute_raises :: bool

section \<open>Duplicate detection\<close>

text \<open>\<^verbatim>\<open>str.lower\<close> on one character of a driver message (the messages are ASCII).\<close>

definition lower_char :: "char \<Rightarrow> char" where
  "lower_char c =
     (case map_of (zip ''ABCDEFGHIJKLMNOPQRSTUVWXYZ'' ''abcdefghijklmnopqrstuvwxyz'') c of
        Some l \<Rightarrow> l
      | None \<Rightarrow> c)"

text \<open>Python's \<^verbatim>\<open>needle in haystack\<close> on strings.\<close>

fun contains :: "string \<Rightarrow> string \<Rightarrow> bool" where
  "contains needle [] = (needle = [])"
| "contains needle (c # cs) =
     (if take (length needle) (c # cs) = needle then True else contains needle cs)"

definition is_duplicate_entry_error :: "exn \<Rightarrow> bool" where
  "is_duplicate_entry_error error =
     (case error of
        IntegrityError msg \<Rightarrow> contains ''unique'' (map lower_char msg)
      | _ \<Rightarrow> False)"

text \<open>
  The insert into \<^verbatim>\<open>yo_notifications\<close>, as the table declaration and SQLite (the
  engine of the test suite) define it: the primary key \<^verbatim>\<open>nid\<close> is unique, and so is
  the tuple of \<^verbatim>\<open>UniqueConstraint('to_username', 'notify_type', 'trx_id',
  'from_username')\<close>, where a NULL is distinct from every value, another NULL included.
\<close>

definition same_key :: "string notification \<Rightarrow> string notification \<Rightarrow> bool" where
  "same_key n r =
     (to_username r = to_username n \<and> notify_type r = notify_type n \<and>
      trx_id r \<noteq> None \<and> trx_id r = trx_id n \<and>
      from_username r \<noteq> None \<and> from_username r = from_username n)"

definition insert_notification :: "yo_database \<Rightarrow> string notification \<Rightarrow> exn + yo_database" where
  "insert_notification db row =
     (if execute_raises db then Inl OperationalError
      else if list_ex (\<lambda>r. nid r = nid row) (notifications db)
        then Inl (IntegrityError ''UNIQUE constraint failed: yo_notifications.nid'')
      else if list_ex (same_key row) (notifications db)
        then Inl (IntegrityError ''UNIQUE constraint failed: yo_notifications.to_username, yo_notifications.notify_type, yo_notifications.trx_id, yo_notifications.from_username'')
      else Inr (db\<lparr>notifications := notifications db @ [row]\<rparr>))"

section \<open>Creating notifications\<close>

definition with_nid :: "string \<Rightarrow> 'i notification \<Rightarrow> string notification" where
  "with_nid i n =
     \<lparr>nid = i, notify_type = notify_type n, to_username = to_username n,
      from_username = from_username n, json_data = json_data n,
      priority_level = priority_level n, trx_id = trx_id n\<rparr>"

text \<open>
  \<^verbatim>\<open>create_notification(**notification_object)\<close>; \<open>uuid\<close> is what
  \<^verbatim>\<open>str(uuid.uuid4())\<close> returns when the \<^verbatim>\<open>nid\<close> key is absent. The result is
  the returned boolean and the database. After the handler of a duplicate the
  function falls through to its last line, \<^verbatim>\<open>return False\<close>, as it does after any
  other error.
\<close>

definition create_notification ::
  "yo_database \<Rightarrow> string \<Rightarrow> string option notification \<Rightarrow> bool \<times> yo_database" where
  "create_notification db uuid notification_object =
     (let row = with_nid (case nid notification_object of None \<Rightarrow> uuid | Some i \<Rightarrow> i)
                  notification_object
      in case insert_notification db row of
           Inr db' \<Rightarrow> (True, db')
         | Inl e \<Rightarrow>
             if is_duplicate_entry_error e then (False, db)
             else (False, db))"

text \<open>
  The method \<^verbatim>\<open>_create_notification(conn, table, **notification)\<close> at the table
  \<^verbatim>\<open>yo_notifications\<close> (an Isabelle name cannot start with an underscore): its
  handler of a duplicate returns \<^verbatim>\<open>True\<close>.
\<close>

definition private_create_notification ::
  "yo_database \<Rightarrow> string notification \<Rightarrow> bool \<times> yo_database" where
  "private_create_notification db row =
     (case insert_notification db row of
        Inr db' \<Rightarrow> (True, db')
      | Inl e \<Rightarrow>
          if is_duplicate_entry_error e then (True, db)
          else (False, db))"

section \<open>Actions and the priority count\<close>

text \<open>
  \<^verbatim>\<open>mark_sent(notification_object, transport)\<close> at time \<open>now\<close>. Its exception
  handler names the variable \<^verbatim>\<open>nid\<close>, which the method never binds, so a failed
  insert ends in a \<^verbatim>\<open>NameError\<close> that leaves the method.
\<close>

definition mark_sent ::
  "yo_database \<Rightarrow> int \<Rightarrow> string notification \<Rightarrow> string \<Rightarrow> exn option \<times> yo_database" where
  "mark_sent db now notification_object transport_name =
     (if execute_raises db then (Some NameError, db)
      else (None, db\<lparr>actions := actions db @
              [\<lparr>action_nid = nid notification_object,
                action_to_username = to_username notification_object,
                transport = transport_name,
                action_priority_level = priority_level notification_object,
                status = ''Sent'',
                created_at = now\<rparr>]\<rparr>))"

text \<open>What \<^verbatim>\<open>conn.execute(query).fetchall()\<close> gives in \<^verbatim>\<open>get_priority_count\<close>.\<close>

datatype fetch = Raises | FetchedNone | Fetched "action list"

definition select_actions :: "yo_database \<Rightarrow> string \<Rightarrow> int \<Rightarrow> int \<Rightarrow> fetch" where
  "select_actions db username priority start_time =
     (if execute_raises db then Raises
      else Fetched
        (filter (\<lambda>a. start_time \<le> created_at a)
          (filter (\<lambda>a. priority \<le> action_priority_level a)
            (filter (\<lambda>a. action_to_username a = username) (actions db)))))"

text \<open>
  \<^verbatim>\<open>get_priority_count(to_username, priority, timeframe, start_time=None)\<close> at time
  \<open>now\<close>. \<open>retval\<close> starts at 0 and keeps it when the body of the
  \<^verbatim>\<open>try\<close> raises: when the query raises, and when \<^verbatim>\<open>len\<close> is applied to
  \<^verbatim>\<open>None\<close>.
\<close>

definition get_priority_count ::
  "yo_database \<Rightarrow> int \<Rightarrow> string \<Rightarrow> int \<Rightarrow> int \<Rightarrow> int option \<Rightarrow> int" where
  "get_priority_count db now username priority timeframe start_time =
     (let start = (case start_time of None \<Rightarrow> now - timedelta timeframe | Some s \<Rightarrow> s);
          retval = (case select_actions db username priority start of
                      Raises \<Rightarrow> 0
                    | FetchedNone \<Rightarrow> 0
                    | Fetched select_response \<Rightarrow> int (length select_response))
      in if retval < 0 then 0 else retval)"

section \<open>ratelimits.py\<close>

text \<open>
  \<^verbatim>\<open>check_ratelimit(db, notification_object, override=False)\<close> at time \<open>now\<close>. The
  LOW branch first reads a count that is only logged.
\<close>

definition check_ratelimit :: "yo_database \<Rightarrow> int \<Rightarrow> 'i notification \<Rightarrow> bool \<Rightarrow> bool" where
  "check_ratelimit db now notification_object override =
     (let notification_priority = priority_level notification_object;
          username = to_username notification_object
      in if notification_priority = ALWAYS then
           get_priority_count db now username ALWAYS 3600 None < 10
         else if notification_priority = PRIORITY then
           (if override then get_priority_count db now username PRIORITY 3600 None \<le> 10
            else get_priority_count db now username PRIORITY 3600 None \<le> 1)
         else if notification_priority = NORMAL then
           (if override then get_priority_count db now username NORMAL 60 None < 3
            else get_priority_count db now username NORMAL 60 None \<le> 1)
         else if notification_priority = LOW then
           (let count = get_priority_count db now username LOW 3600 None
            in if override then get_priority_count db now username LOW 3600 None < 10
               else get_priority_count db now username LOW 3600 None = 0)
         else if notification_priority = MARKETING then
           (if override then get_priority_count db now username MARKETING 86400 None \<le> 1
            else get_priority_count db now username MARKETING 3600 None \<le> 1)
         else False)"

section \<open>The chain status\<close>

definition get_chain_status :: "yo_database \<Rightarrow> exn + chain_status option" where
  "get_chain_status db =
     (if execute_raises db then Inl OperationalError
      else Inr (case chain_status_table db of [] \<Rightarrow> None | r # _ \<Rightarrow> Some r))"

text \<open>SQL's \<^verbatim>\<open><=\<close> on a nullable column and a parameter: never true on a NULL.\<close>

definition sql_le :: "int option \<Rightarrow> int option \<Rightarrow> bool" where
  "sql_le a b = (case a of None \<Rightarrow> False | Some x \<Rightarrow> (case b of None \<Rightarrow> False | Some y \<Rightarrow> x \<le> y))"

text \<open>
  \<^verbatim>\<open>try_update_status(follower_id, last_processed_block, lock_timeout)\<close> at time
  \<open>now\<close>: a guarded update of every row, whose exception is swallowed, and then
  \<^verbatim>\<open>get_chain_status()\<close>, whose exception is not.
\<close>

definition try_update_status ::
  "yo_database \<Rightarrow> int \<Rightarrow> string option \<Rightarrow> int option \<Rightarrow> int \<Rightarrow>
     (exn + chain_status option) \<times> yo_database" where
  "try_update_status db now follower_id block lock_timeout =
     (let db' =
        (if execute_raises db then db
         else db\<lparr>chain_status_table :=
                map (\<lambda>r. if active_follower_id r = follower_id \<and>
                             sql_le (last_processed_block r) block
                          then r\<lparr>last_processed_block := block,
                                 last_processed_time := now,
                                 lock_expires := now + timedelta lock_timeout\<rparr>
                          else r)
                    (chain_status_table db)\<rparr>)
      in (get_chain_status db', db'))"

text \<open>
  \<^verbatim>\<open>try_active_follower(follower_id, last_processed_block, lock_timeout)\<close> at time
  \<open>now\<close>. The first select stands outside the \<^verbatim>\<open>try\<close>.
\<close>

definition try_active_follower ::
  "yo_database \<Rightarrow> int \<Rightarrow> string option \<Rightarrow> int option \<Rightarrow> int \<Rightarrow>
     (exn + chain_status option) \<times> yo_database" where
  "try_active_follower db now follower_id block lock_timeout =
     (if execute_raises db then (Inl OperationalError, db)
      else
        (let db' =
           (case chain_status_table db of
              [] \<Rightarrow>
                db\<lparr>chain_status_table :=
                     [\<lparr>last_processed_block = block,
                       last_processed_time = now,
                       lock_expires = now + timedelta lock_timeout,
                       active_follower_id = follower_id\<rparr>]\<rparr>
            | _ # _ \<Rightarrow>
                db\<lparr>chain_status_table :=
                     map (\<lambda>r. if lock_expires r \<le> now
                               then r\<lparr>active_follower_id := follower_id,
                                      lock_expires := now + timedelta lock_timeout\<rparr>
                               else r)
                         (chain_status_table db)\<rparr>)
         in (get_chain_status db', db')))"

section \<open>User settings\<close>

definition DEFAULT_USER_TRANSPORT_SETTINGS :: transports where
  "DEFAULT_USER_TRANSPORT_SETTINGS =
     [(''email'', \<lparr>notification_types = [], sub_data = JObj []\<rparr>),
      (''wwwpoll'',
        \<lparr>notification_types =
           [''power_down'', ''power_up'', ''resteem'', ''feed'', ''reward'', ''send'',
            ''mention'', ''follow'', ''vote'', ''comment_reply'', ''post_reply'',
            ''account_update'', ''message'', ''receive''],
         sub_data = JObj []\<rparr>)]"

text \<open>
  \<^verbatim>\<open>create_user(username, transports=None)\<close>: \<^verbatim>\<open>username\<close> is the primary key of
  \<^verbatim>\<open>yo_user_settings\<close>, and every exception of the insert makes the result
  \<^verbatim>\<open>False\<close>.
\<close>

definition create_user :: "yo_database \<Rightarrow> string \<Rightarrow> transports option \<Rightarrow> bool \<times> yo_database" where
  "create_user db username transports_arg =
     (let settings = (case transports_arg of None \<Rightarrow> DEFAULT_USER_TRANSPORT_SETTINGS | Some t \<Rightarrow> t)
      in if execute_raises db then (False, db)
         else if list_ex (\<lambda>row. fst row = username) (user_settings db) then (False, db)
         else (True, db\<lparr>user_settings := user_settings db @ [(username, settings)]\<rparr>))"

text \<open>The select of \<^verbatim>\<open>get_user_transports\<close>, whose exception leaves \<^verbatim>\<open>retval\<close> at \<^verbatim>\<open>None\<close>.\<close>

definition select_user_transports :: "yo_database \<Rightarrow> string \<Rightarrow> transports option" where
  "select_user_transports db username =
     (if execute_raises db then None else map_of (user_settings db) username)"

text \<open>\<^verbatim>\<open>get_user_transports(username, retry)\<close>: one retry after creating the user.\<close>

function get_user_transports ::
  "yo_database \<Rightarrow> string \<Rightarrow> bool \<Rightarrow> transports option \<times> yo_database" where
  "get_user_transports db username retry =
     (case select_user_transports db username of
        Some t \<Rightarrow> (Some t, db)
      | None \<Rightarrow>
          if \<not> retry then
            (case create_user db username None of
               (True, db') \<Rightarrow> get_user_transports db' username True
             | (False, db') \<Rightarrow> (None, db'))
          else (None, db))"
  by pat_completeness auto
termination
  by (relation "measure (\<lambda>(db, username, retry). if retry then 0 else 1)") auto

section \<open>notification_sender.py\<close>

text \<open>
  \<^verbatim>\<open>get_wwwpoll_unsents()\<close>. The first query is an \<^verbatim>\<open>EXCEPT\<close>: the distinct
  \<^verbatim>\<open>nid\<close>s of the notifications that no action carries, which SQLite returns in
  ascending byte order. Each \<^verbatim>\<open>nid\<close> is then looked up with \<^verbatim>\<open>fetchone()\<close>, and
  the rows are grouped by recipient in a dictionary that keeps the order of first
  insertion. No statement of this method stands in a \<^verbatim>\<open>try\<close>.
\<close>

definition unsent_nids :: "yo_database \<Rightarrow> string list" where
  "unsent_nids db =
     sort (remdups (map nid
       (filter (\<lambda>n. \<not> list_ex (\<lambda>a. action_nid a = nid n) (actions db))
               (notifications db))))"

fun add_unsent ::
  "(string \<times> string notification list) list \<Rightarrow> string notification \<Rightarrow>
     (string \<times> string notification list) list" where
  "add_unsent [] row = [(to_username row, [row])]"
| "add_unsent ((username, rows) # retval) row =
     (if username = to_username row then (username, rows @ [row]) # retval
      else (username, rows) # add_unsent retval row)"

definition get_wwwpoll_unsents ::
  "yo_database \<Rightarrow> exn + (string \<times> string notification list) list" where
  "get_wwwpoll_unsents db =
     (if execute_raises db then Inl OperationalError
      else Inr (foldl add_unsent []
                 (List.map_filter (\<lambda>i. find (\<lambda>n. nid n = i) (notifications db))
                                  (unsent_nids db))))"

text \<open>
  The dictionary \<^verbatim>\<open>user_notify_types_transports\<close>: for a notification type, the pairs
  (transport name, sub data) of the transports that list it, in the order of the
  user's settings.
\<close>

definition add_notify_type ::
  "string \<times> json \<Rightarrow> (string \<rightharpoonup> (string \<times> json) list) \<Rightarrow> string \<Rightarrow>
     (string \<rightharpoonup> (string \<times> json) list)" where
  "add_notify_type t d ty = d(ty \<mapsto> (case d ty of None \<Rightarrow> [] | Some ts \<Rightarrow> ts) @ [t])"

definition notify_types_transports :: "transports \<Rightarrow> (string \<rightharpoonup> (string \<times> json) list)" where
  "notify_types_transports user_transports =
     foldl (\<lambda>d entry.
              foldl (add_notify_type (fst entry, sub_data (snd entry))) d
                    (notification_types (snd entry)))
           Map.empty user_transports"

text \<open>
  The keyword arguments of one \<^verbatim>\<open>send_notification\<close> call. A transport is the
  function that tells, for these arguments, whether the call returns (\<open>True\<close>) or
  raises (\<open>False\<close>); \<open>configured_transports\<close> maps names to transports.
\<close>

record message =
  to_subdata :: json
  recipient :: string
  kind :: string
  payload :: json

type_synonym configured = "string \<rightharpoonup> (message \<Rightarrow> bool)"

text \<open>
  The state of a dispatch cycle: the database, and the calls of
  \<^verbatim>\<open>send_notification\<close> made so far, each with the transport's name and whether it
  returned.
\<close>

record sender_state =
  database :: yo_database
  calls :: "(string \<times> message \<times> bool) list"

text \<open>
  The body of \<^verbatim>\<open>for t in user_notify_types_transports[...]\<close>: a \<^verbatim>\<open>try\<close> whose
  bare \<^verbatim>\<open>except\<close> swallows the \<^verbatim>\<open>KeyError\<close> of an unconfigured transport, the
  \<^verbatim>\<open>TypeError\<close> of \<^verbatim>\<open>json.loads(None)\<close>, the exception of the transport, and the
  exception of \<^verbatim>\<open>mark_sent\<close>, which is called only after the send has returned.
\<close>

definition send_to_transport ::
  "configured \<Rightarrow> int \<Rightarrow> string \<Rightarrow> string notification \<Rightarrow> sender_state \<Rightarrow> string \<times> json \<Rightarrow>
     sender_state" where
  "send_to_transport configured_transports now username notification w t =
     (case configured_transports (fst t) of
        None \<Rightarrow> w
      | Some send_notification \<Rightarrow>
          (case json_data notification of
             None \<Rightarrow> w
           | Some data \<Rightarrow>
               (let msg = \<lparr>to_subdata = snd t, recipient = username,
                           kind = notify_type notification, payload = data\<rparr>
                in if send_notification msg then
                     w\<lparr>database := snd (mark_sent (database w) now notification (fst t)),
                       calls := calls w @ [(fst t, msg, True)]\<rparr>
                   else w\<lparr>calls := calls w @ [(fst t, msg, False)]\<rparr>)))"

text \<open>
  The body of \<^verbatim>\<open>for notification in notifications\<close>. The subscript
  \<^verbatim>\<open>user_notify_types_transports[notification['notify_type']]\<close> stands outside the
  \<^verbatim>\<open>try\<close>: its \<^verbatim>\<open>KeyError\<close> leaves the loop.
\<close>

definition send_notification_to_user ::
  "configured \<Rightarrow> int \<Rightarrow> string \<Rightarrow> (string \<rightharpoonup> (string \<times> json) list) \<Rightarrow>
     string notification \<Rightarrow> sender_state \<Rightarrow> exn option \<times> sender_state" where
  "send_notification_to_user configured_transports now username user_notify_types_transports
       notification w =
     (if \<not> check_ratelimit (database w) now notification False then (None, w)
      else
        (case user_notify_types_transports (notify_type notification) of
           None \<Rightarrow> (Some KeyError, w)
         | Some ts \<Rightarrow>
             (None, foldl (send_to_transport configured_transports now username notification) w ts)))"

fun for_notifications ::
  "configured \<Rightarrow> int \<Rightarrow> string \<Rightarrow> (string \<rightharpoonup> (string \<times> json) list) \<Rightarrow>
     string notification list \<Rightarrow> sender_state \<Rightarrow> exn option \<times> sender_state" where
  "for_notifications configured_transports now username d [] w = (None, w)"
| "for_notifications configured_transports now username d (notification # rest) w =
     (case send_notification_to_user configured_transports now username d notification w of
        (Some e, w') \<Rightarrow> (Some e, w')
      | (None, w') \<Rightarrow> for_notifications configured_transports now username d rest w')"

text \<open>
  The body of \<^verbatim>\<open>for username, notifications in unsents.items()\<close>. When
  \<^verbatim>\<open>get_user_transports\<close> returns \<^verbatim>\<open>None\<close>, \<^verbatim>\<open>user_transports.items()\<close> raises.
\<close>

definition send_to_user ::
  "configured \<Rightarrow> int \<Rightarrow> string \<times> string notification list \<Rightarrow> sender_state \<Rightarrow>
     exn option \<times> sender_state" where
  "send_to_user configured_transports now unsent w =
     (case get_user_transports (database w) (fst unsent) False of
        (None, db') \<Rightarrow> (Some AttributeError, w\<lparr>database := db'\<rparr>)
      | (Some user_transports, db') \<Rightarrow>
          for_notifications configured_transports now (fst unsent)
            (notify_types_transports user_transports) (snd unsent) (w\<lparr>database := db'\<rparr>))"

fun for_users ::
  "configured \<Rightarrow> int \<Rightarrow> (string \<times> string notification list) list \<Rightarrow> sender_state \<Rightarrow>
     exn option \<times> sender_state" where
  "for_users configured_transports now [] w = (None, w)"
| "for_users configured_transports now (unsent # rest) w =
     (case send_to_user configured_transports now unsent w of
        (Some e, w') \<Rightarrow> (Some e, w')
      | (None, w') \<Rightarrow> for_users configured_transports now rest w')"

text \<open>
  \<^verbatim>\<open>run_send_notify()\<close> at time \<open>now\<close>: the exception that leaves it, if any, and
  the state it leaves.
\<close>

definition run_send_notify :: "configured \<Rightarrow> int \<Rightarrow> sender_state \<Rightarrow> exn option \<times> sender_state" where
  "run_send_notify configured_transports now w =
     (case get_wwwpoll_unsents (database w) of
        Inl e \<Rightarrow> (Some e, w)
      | Inr unsents \<Rightarrow> for_users configured_transports now unsents w)"

section \<open>blockchain_follower.py: operations\<close>

text \<open>
  An operation of a block, typed as the chain protocol types it. The \<^verbatim>\<open>json\<close> member
  of a \<^verbatim>\<open>custom_json\<close> operation is free-form: it is held as the value
  \<^verbatim>\<open>json.loads\<close> returns for it, and the handlers subscript that value as Python
  does. \<open>account_update\<close> carries the account and its other members.
\<close>

datatype operation =
    vote (voter: string) (author: string) (permlink: string) (weight: int)
  | custom_json (required_auths: "string list") (required_posting_auths: "string list")
      (ident: string) (json_member: json)
  | account_update (account: string) (members: "(string \<times> json) list")
  | transfer (sender: string) (receiver: string) (amount: string) (memo: string)
  | withdraw_vesting (account: string) (vesting_shares: string)
  | comment (parent_author: string) (parent_permlink: string) (author: string)
      (permlink: string) (title: string) (body: string) (json_metadata: string)
  | other_operation string

record blockchain_op =
  op_trx_id :: string
  op :: operation

text \<open>The dictionary \<^verbatim>\<open>op['op'][1]\<close> as \<^verbatim>\<open>json.dumps\<close> writes it.\<close>

fun op_data :: "operation \<Rightarrow> json" where
  "op_data (vote v a p w) =
     JObj [(''voter'', JStr v), (''author'', JStr a), (''permlink'', JStr p), (''weight'', JNum w)]"
| "op_data (custom_json ra rpa i j) =
     JObj [(''required_auths'', JArr (map JStr ra)),
           (''required_posting_auths'', JArr (map JStr rpa)), (''id'', JStr i), (''json'', j)]"
| "op_data (account_update a ms) = JObj ((''account'', JStr a) # ms)"
| "op_data (transfer f t a m) =
     JObj [(''from'', JStr f), (''to'', JStr t), (''amount'', JStr a), (''memo'', JStr m)]"
| "op_data (withdraw_vesting a v) = JObj [(''account'', JStr a), (''vesting_shares'', JStr v)]"
| "op_data (comment pa pp a p t b m) =
     JObj [(''parent_author'', JStr pa), (''parent_permlink'', JStr pp), (''author'', JStr a),
           (''permlink'', JStr p), (''title'', JStr t), (''body'', JStr b),
           (''json_metadata'', JStr m)]"
| "op_data (other_operation name) = JObj []"

text \<open>
  Python's subscripts on a decoded JSON value: \<^verbatim>\<open>x[i]\<close> with an integer and
  \<^verbatim>\<open>x['k']\<close> with a string. A decoded object has string keys, each once.
\<close>

definition subscript_int :: "json \<Rightarrow> nat \<Rightarrow> exn + json" where
  "subscript_int x i =
     (case x of
        JArr l \<Rightarrow> if i < length l then Inr (l ! i) else Inl IndexError
      | JStr s \<Rightarrow> if i < length s then Inr (JStr [s ! i]) else Inl IndexError
      | JObj kv \<Rightarrow> Inl KeyError
      | _ \<Rightarrow> Inl TypeError)"

definition subscript_str :: "json \<Rightarrow> string \<Rightarrow> exn + json" where
  "subscript_str x k =
     (case x of
        JObj kv \<Rightarrow> (case map_of kv k of Some v \<Rightarrow> Inr v | None \<Rightarrow> Inl KeyError)
      | _ \<Rightarrow> Inl TypeError)"

text \<open>
  What SQLite stores in a \<^verbatim>\<open>String\<close> column for a decoded JSON value passed as the
  parameter: a string as it is, an integer (and a boolean, which Python binds as 1 or
  0) as its decimal text. For \<^verbatim>\<open>None\<close> (the column is NOT NULL), for a list or a
  dictionary (they cannot be bound) and for an integer outside 64 bits the insert
  raises: the result is \<open>None\<close>. \<open>JNum\<close> holds integers only.
\<close>

fun decimal_digits :: "nat \<Rightarrow> string" where
  "decimal_digits n =
     (if n < 10 then [''0123456789'' ! n]
      else decimal_digits (n div 10) @ [''0123456789'' ! (n mod 10)])"

definition decimal :: "int \<Rightarrow> string" where
  "decimal i = (if i < 0 then CHR ''-'' # decimal_digits (nat (- i)) else decimal_digits (nat i))"

definition column_text :: "json \<Rightarrow> string option" where
  "column_text v =
     (case v of
        JStr s \<Rightarrow> Some s
      | JNum i \<Rightarrow> if - (2 ^ 63) \<le> i \<and> i < 2 ^ 63 then Some (decimal i) else None
      | JBool b \<Rightarrow> Some (if b then ''1'' else ''0'')
      | _ \<Rightarrow> None)"

text \<open>
  The follower's state: the database, and how many times \<^verbatim>\<open>uuid.uuid4()\<close> has been
  called; \<open>uuid4 k\<close> is the string of call \<open>k\<close>.
\<close>

record follower_state =
  store :: yo_database
  drawn :: nat

text \<open>
  \<^verbatim>\<open>store_notification(**data)\<close>: the key \<^verbatim>\<open>sent\<close> it adds names no column and the
  insert drops it; the result of \<^verbatim>\<open>create_notification\<close> is not read.
\<close>

definition store_notification ::
  "(nat \<Rightarrow> string) \<Rightarrow> follower_state \<Rightarrow> string option notification \<Rightarrow> follower_state" where
  "store_notification uuid4 w data =
     \<lparr>store = snd (create_notification (store w) (uuid4 (drawn w)) data),
      drawn = (if nid data = None then Suc (drawn w) else drawn w)\<rparr>"

section \<open>The mention pattern\<close>

text \<open>
  \<^verbatim>\<open>MENTION_PATTERN = re.compile(r'@([a-z][a-z0-9\-]{2,15})\s')\<close>. A character is a
  code point below 256; \<^verbatim>\<open>\s\<close> on a Python 3 string is Unicode white space, which
  in that range is 9-13, 28-32, 133 and 160.
\<close>

definition lowercase :: "char \<Rightarrow> bool" where
  "lowercase c = (97 \<le> (of_char c :: nat) \<and> (of_char c :: nat) \<le> 122)"

definition digit :: "char \<Rightarrow> bool" where
  "digit c = (48 \<le> (of_char c :: nat) \<and> (of_char c :: nat) \<le> 57)"

definition name_char :: "char \<Rightarrow> bool" where
  "name_char c = (lowercase c \<or> digit c \<or> c = CHR ''-'')"

definition whitespace :: "char \<Rightarrow> bool" where
  "whitespace c =
     (9 \<le> (of_char c :: nat) \<and> (of_char c :: nat) \<le> 13 \<or>
      28 \<le> (of_char c :: nat) \<and> (of_char c :: nat) \<le> 32 \<or>
      (of_char c :: nat) = 133 \<or> (of_char c :: nat) = 160)"

text \<open>
  The greedy \<^verbatim>\<open>{2,15}\<close> followed by \<^verbatim>\<open>\s\<close>: having taken \<open>k\<close> characters, the
  matcher tries \<^verbatim>\<open>\s\<close> on the next one and gives characters back one at a time
  while at least two remain.
\<close>

fun give_back :: "nat \<Rightarrow> string \<Rightarrow> nat option" where
  "give_back k rest =
     (if k < 2 then None
      else if k < length rest \<and> whitespace (rest ! k) then Some k
      else give_back (k - 1) rest)"

text \<open>What the greedy \<^verbatim>\<open>{2,15}\<close> takes first: the run of name characters, 15 at most.\<close>

definition run_length :: "string \<Rightarrow> nat" where
  "run_length rest = length (takeWhile name_char (take 15 rest))"

text \<open>
  A match that starts at the head of the string: the group, and the length of the
  whole match.
\<close>

definition match_here :: "string \<Rightarrow> (string \<times> nat) option" where
  "match_here s =
     (case s of
        at # first # rest \<Rightarrow>
          if at = CHR ''@'' \<and> lowercase first then
            (case give_back (run_length rest) rest of
               Some k \<Rightarrow> Some (first # take k rest, k + 3)
             | None \<Rightarrow> None)
          else None
      | _ \<Rightarrow> None)"

text \<open>
  \<^verbatim>\<open>re.findall(MENTION_PATTERN, haystack)\<close>: the groups of the matches found from
  left to right, each search starting where the last match ended. \<open>skip\<close> counts
  the characters of the last match still ahead.
\<close>

fun findall_from :: "nat \<Rightarrow> string \<Rightarrow> string list" where
  "findall_from skip [] = []"
| "findall_from (Suc skip) (c # cs) = findall_from skip cs"
| "findall_from 0 (c # cs) =
     (case match_here (c # cs) of
        Some (g, len) \<Rightarrow> g # findall_from (len - 1) cs
      | None \<Rightarrow> findall_from 0 cs)"

definition findall_mentions :: "string \<Rightarrow> string list" where
  "findall_mentions haystack = findall_from 0 haystack"

section \<open>blockchain_follower.py: handlers\<close>

definition handle_vote ::
  "(nat \<Rightarrow> string) \<Rightarrow> blockchain_op \<Rightarrow> follower_state \<Rightarrow> (exn + bool) \<times> follower_state" where
  "handle_vote uuid4 bop w =
     (case op bop of
        vote v a p wt \<Rightarrow>
          (Inr True,
           store_notification uuid4 w
             \<lparr>nid = None, notify_type = ''vote'', to_username = a, from_username = Some v,
              json_data = Some (op_data (op bop)), priority_level = LOW,
              trx_id = Some (op_trx_id bop)\<rparr>)
      | _ \<Rightarrow> (Inl KeyError, w))"

text \<open>
  \<^verbatim>\<open>handle_follow\<close>. The members \<^verbatim>\<open>follower\<close> and \<^verbatim>\<open>following\<close> are read before
  the signers are checked. An accepted \<^verbatim>\<open>follower\<close> equals the signer, a string;
  \<^verbatim>\<open>following\<close> is any decoded value and is stored as \<open>column_text\<close> tells. When
  the insert raises on it, \<^verbatim>\<open>create_notification\<close> has drawn its \<^verbatim>\<open>nid\<close>, stores
  nothing and returns \<^verbatim>\<open>False\<close>, which \<^verbatim>\<open>store_notification\<close> does not read.
\<close>

definition handle_follow ::
  "(nat \<Rightarrow> string) \<Rightarrow> blockchain_op \<Rightarrow> follower_state \<Rightarrow> (exn + bool) \<times> follower_state" where
  "handle_follow uuid4 bop w =
     (case op bop of
        custom_json ra rpa i follow_data \<Rightarrow>
          (case subscript_int follow_data 0 of
             Inl e \<Rightarrow> (Inl e, w)
           | Inr tag \<Rightarrow>
               if tag \<noteq> JStr ''follow'' then (Inr False, w)
               else
                 (case subscript_int follow_data 1 of
                    Inl e \<Rightarrow> (Inl e, w)
                  | Inr d \<Rightarrow>
                      (case subscript_str d ''follower'' of
                         Inl e \<Rightarrow> (Inl e, w)
                       | Inr follower \<Rightarrow>
                           (case subscript_str d ''following'' of
                              Inl e \<Rightarrow> (Inl e, w)
                            | Inr following \<Rightarrow>
                                if length rpa \<noteq> 1 then (Inr False, w)
                                else if JStr (hd rpa) \<noteq> follower then (Inr False, w)
                                else
                                  (case column_text following of
                                     Some name \<Rightarrow>
                                       (Inr True,
                                        store_notification uuid4 w
                                          \<lparr>nid = None, notify_type = ''follow'',
                                           to_username = name, from_username = Some (hd rpa),
                                           json_data = Some d, priority_level = LOW,
                                           trx_id = Some (op_trx_id bop)\<rparr>)
                                   | None \<Rightarrow>
                                       (Inr True, w\<lparr>drawn := Suc (drawn w)\<rparr>))))))
      | _ \<Rightarrow> (Inl KeyError, w))"

definition handle_account_update ::
  "(nat \<Rightarrow> string) \<Rightarrow> blockchain_op \<Rightarrow> follower_state \<Rightarrow> (exn + bool) \<times> follower_state" where
  "handle_account_update uuid4 bop w =
     (case op bop of
        account_update a ms \<Rightarrow>
          (Inr True,
           store_notification uuid4 w
             \<lparr>nid = None, notify_type = ''account_update'', to_username = a,
              from_username = None, json_data = Some (op_data (op bop)),
              priority_level = LOW, trx_id = Some (op_trx_id bop)\<rparr>)
      | _ \<Rightarrow> (Inl KeyError, w))"

definition transfer_data :: "operation \<Rightarrow> json" where
  "transfer_data x =
     JObj [(''amount'', JStr (amount x)), (''from'', JStr (sender x)),
           (''memo'', JStr (memo x)), (''to'', JStr (receiver x))]"

definition handle_send ::
  "(nat \<Rightarrow> string) \<Rightarrow> blockchain_op \<Rightarrow> follower_state \<Rightarrow> (exn + bool) \<times> follower_state" where
  "handle_send uuid4 bop w =
     (case op bop of
        transfer f t a m \<Rightarrow>
          (Inr True,
           store_notification uuid4 w
             \<lparr>nid = None, notify_type = ''send'', to_username = f, from_username = None,
              json_data = Some (transfer_data (op bop)), priority_level = LOW,
              trx_id = Some (op_trx_id bop)\<rparr>)
      | _ \<Rightarrow> (Inl KeyError, w))"

definition handle_receive ::
  "(nat \<Rightarrow> string) \<Rightarrow> blockchain_op \<Rightarrow> follower_state \<Rightarrow> (exn + bool) \<times> follower_state" where
  "handle_receive uuid4 bop w =
     (case op bop of
        transfer f t a m \<Rightarrow>
          (Inr True,
           store_notification uuid4 w
             \<lparr>nid = None, notify_type = ''receive'', to_username = t, from_username = Some f,
              json_data = Some (transfer_data (op bop)), priority_level = LOW,
              trx_id = Some (op_trx_id bop)\<rparr>)
      | _ \<Rightarrow> (Inl KeyError, w))"

definition handle_power_down ::
  "(nat \<Rightarrow> string) \<Rightarrow> blockchain_op \<Rightarrow> follower_state \<Rightarrow> (exn + bool) \<times> follower_state" where
  "handle_power_down uuid4 bop w =
     (case op bop of
        withdraw_vesting a v \<Rightarrow>
          (Inr True,
           store_notification uuid4 w
             \<lparr>nid = None, notify_type = ''power_down'', to_username = a, from_username = None,
              json_data = Some (op_data (op bop)), priority_level = LOW,
              trx_id = Some (op_trx_id bop)\<rparr>)
      | _ \<Rightarrow> (Inl KeyError, w))"

text \<open>
  \<^verbatim>\<open>handle_mention\<close>: one \<^verbatim>\<open>store_notification\<close> call per element of
  \<^verbatim>\<open>re.findall(MENTION_PATTERN, body + '\n')\<close>, in order; \<open>mention_candidates\<close> are
  the keyword arguments of these calls.
\<close>

definition mention_candidates :: "blockchain_op \<Rightarrow> string option notification list" where
  "mention_candidates bop =
     map (\<lambda>match.
            \<lparr>nid = None, notify_type = ''mention'', to_username = match,
             from_username = Some (author (op bop)),
             json_data = Some (JObj [(''author'', JStr (author (op bop))),
                                     (''permlink'', JStr (permlink (op bop)))]),
             priority_level = LOW, trx_id = Some (op_trx_id bop)\<rparr>)
         (findall_mentions (body (op bop) @ [CHR 0x0A]))"

definition handle_mention ::
  "(nat \<Rightarrow> string) \<Rightarrow> blockchain_op \<Rightarrow> follower_state \<Rightarrow> (exn + bool) \<times> follower_state" where
  "handle_mention uuid4 bop w =
     (case op bop of
        comment pa pp a p t b m \<Rightarrow>
          (Inr True, foldl (store_notification uuid4) w (mention_candidates bop))
      | _ \<Rightarrow> (Inl KeyError, w))"

text \<open>
  \<^verbatim>\<open>handle_comment\<close>; \<open>post_is_comment\<close> stands for \<^verbatim>\<open>steem.post.Post(parent_id)\<close>
  and its \<^verbatim>\<open>is_comment()\<close>, a lookup on the chain that can raise.
\<close>

definition handle_comment ::
  "(string \<Rightarrow> exn + bool) \<Rightarrow> (nat \<Rightarrow> string) \<Rightarrow> blockchain_op \<Rightarrow> follower_state \<Rightarrow>
     (exn + bool) \<times> follower_state" where
  "handle_comment post_is_comment uuid4 bop w =
     (case op bop of
        comment pa pp a p t b m \<Rightarrow>
          if pa = [] then (Inr True, w)
          else
            (case post_is_comment (''@'' @ pa @ ''/'' @ pp) of
               Inl e \<Rightarrow> (Inl e, w)
             | Inr parent_is_comment \<Rightarrow>
                 (Inr True,
                  store_notification uuid4 w
                    \<lparr>nid = None,
                     notify_type = (if parent_is_comment then ''comment_reply'' else ''post_reply''),
                     to_username = pa, from_username = Some a,
                     json_data = Some (op_data (op bop)), priority_level = LOW,
                     trx_id = Some (op_trx_id bop)\<rparr>))
      | _ \<Rightarrow> (Inl KeyError, w))"

text \<open>
  \<^verbatim>\<open>handle_resteem\<close>: as \<^verbatim>\<open>handle_follow\<close>, with \<^verbatim>\<open>True\<close> for a rejected
  operation.
\<close>

definition handle_resteem ::
  "(nat \<Rightarrow> string) \<Rightarrow> blockchain_op \<Rightarrow> follower_state \<Rightarrow> (exn + bool) \<times> follower_state" where
  "handle_resteem uuid4 bop w =
     (case op bop of
        custom_json ra rpa i resteem_data \<Rightarrow>
          (case subscript_int resteem_data 0 of
             Inl e \<Rightarrow> (Inl e, w)
           | Inr tag \<Rightarrow>
               if tag \<noteq> JStr ''reblog'' then (Inr True, w)
               else
                 (case subscript_int resteem_data 1 of
                    Inl e \<Rightarrow> (Inl e, w)
                  | Inr d \<Rightarrow>
                      (case subscript_str d ''account'' of
                         Inl e \<Rightarrow> (Inl e, w)
                       | Inr acct \<Rightarrow>
                           (case subscript_str d ''author'' of
                              Inl e \<Rightarrow> (Inl e, w)
                            | Inr auth \<Rightarrow>
                                (case subscript_str d ''permlink'' of
                                   Inl e \<Rightarrow> (Inl e, w)
                                 | Inr link \<Rightarrow>
                                     if length rpa \<noteq> 1 then (Inr True, w)
                                     else if JStr (hd rpa) \<noteq> acct then (Inr True, w)
                                     else
                                       (case column_text auth of
                                          Some name \<Rightarrow>
                                            (Inr True,
                                             store_notification uuid4 w
                                               \<lparr>nid = None, notify_type = ''resteem'',
                                                to_username = name,
                                                from_username = Some (hd rpa),
                                                json_data = Some d, priority_level = LOW,
                                                trx_id = Some (op_trx_id bop)\<rparr>)
                                        | None \<Rightarrow>
                                            (Inr True, w\<lparr>drawn := Suc (drawn w)\<rparr>)))))))
      | _ \<Rightarrow> (Inl KeyError, w))"

text \<open>
  \<^verbatim>\<open>asyncio.gather\<close> of two handlers. No handler suspends, so the first runs to
  its end and then the second, also when the first raised; the result is the first
  exception raised, or the list of the two results.
\<close>

datatype response = Single bool | Gathered "bool list"

definition gather ::
  "(follower_state \<Rightarrow> (exn + bool) \<times> follower_state) \<Rightarrow>
   (follower_state \<Rightarrow> (exn + bool) \<times> follower_state) \<Rightarrow>
   follower_state \<Rightarrow> (exn + response) \<times> follower_state" where
  "gather h1 h2 w =
     (let (r1, w1) = h1 w; (r2, w2) = h2 w1
      in (case r1 of
            Inl e \<Rightarrow> Inl e
          | Inr b1 \<Rightarrow> (case r2 of Inl e \<Rightarrow> Inl e | Inr b2 \<Rightarrow> Inr (Gathered [b1, b2])),
          w2))"

definition single :: "(exn + bool) \<times> follower_state \<Rightarrow> (exn + response) \<times> follower_state" where
  "single r = (case fst r of Inl e \<Rightarrow> Inl e | Inr b \<Rightarrow> Inr (Single b), snd r)"

text \<open>\<^verbatim>\<open>notify(blockchain_op)\<close>: the classifier.\<close>

definition notify ::
  "(string \<Rightarrow> exn + bool) \<Rightarrow> (nat \<Rightarrow> string) \<Rightarrow> blockchain_op \<Rightarrow> follower_state \<Rightarrow>
     (exn + response) \<times> follower_state" where
  "notify post_is_comment uuid4 blockchain_op w =
     (case op blockchain_op of
        vote v a p wt \<Rightarrow> single (handle_vote uuid4 blockchain_op w)
      | custom_json ra rpa i j \<Rightarrow>
          if i = ''follow'' then
            gather (handle_follow uuid4 blockchain_op) (handle_resteem uuid4 blockchain_op) w
          else (Inr (Single True), w)
      | account_update a ms \<Rightarrow> single (handle_account_update uuid4 blockchain_op w)
      | transfer f t a m \<Rightarrow>
          gather (handle_send uuid4 blockchain_op) (handle_receive uuid4 blockchain_op) w
      | withdraw_vesting a v \<Rightarrow> single (handle_power_down uuid4 blockchain_op w)
      | comment pa pp a p t b m \<Rightarrow>
          gather (handle_mention uuid4 blockchain_op)
                 (handle_comment post_is_comment uuid4 blockchain_op) w
      | other_operation name \<Rightarrow> (Inr (Single True), w))"

section \<open>The mentions of the specification\<close>

text \<open>
  A username token in the words of the specification: a leading lower-case letter
  followed by 2 to 15 lower-case alphanumeric or hyphen characters.
\<close>

definition username_token :: "string \<Rightarrow> bool" where
  "username_token t =
     (case t of
        [] \<Rightarrow> False
      | c # cs \<Rightarrow> lowercase c \<and> 2 \<le> length cs \<and> length cs \<le> 15 \<and> list_all name_char cs)"

text \<open>
  \<open>mention_here s n\<close>: the string starts with \<^verbatim>\<open>@\<close>, then a username token of
  \<open>n\<close> characters, then a white space character.
\<close>

definition mention_here :: "string \<Rightarrow> nat \<Rightarrow> bool" where
  "mention_here s n =
     (n + 1 < length s \<and> hd s = CHR ''@'' \<and> username_token (take n (tl s)) \<and>
      whitespace (s ! (n + 1)))"

text \<open>The tokens mentioned in a text, one per occurrence, at every position in order.\<close>

fun mention_occurrences :: "string \<Rightarrow> string list" where
  "mention_occurrences [] = []"
| "mention_occurrences (c # cs) =
     map (\<lambda>n. take n cs) (filter (mention_here (c # cs)) [3..<17]) @ mention_occurrences cs"

section \<open>The count of the specification\<close>

text \<open>
  \<^verbatim>\<open>countAtOrAbove(toUsername, priorityLevel, windowSeconds)\<close> in the words of the
  specification: the number of Action records of the user with a priority level at or
  above the given one, created within the trailing window, all taken at time \<open>now\<close>.
\<close>

definition count_at_or_above :: "action list \<Rightarrow> int \<Rightarrow> string \<Rightarrow> int \<Rightarrow> int \<Rightarrow> nat" where
  "count_at_or_above ledger now username priority window =
     length [a \<leftarrow> ledger. action_to_username a = username \<and>
                           priority \<le> action_priority_level a \<and>
                           now - timedelta window \<le> created_at a]"

section \<open>The attempts of a dispatch\<close>

text \<open>
  The vocabulary of the statements on \<^verbatim>\<open>run_send_notify\<close>: the keyword arguments
  with which a notification goes to the transport entry \<open>t\<close>, the row \<open>mark_sent\<close>
  writes for it, and whether the configured transport of that name returns on them.
\<close>

definition message_of :: "string \<Rightarrow> string notification \<Rightarrow> json \<Rightarrow> string \<times> json \<Rightarrow> message" where
  "message_of username n data t =
     \<lparr>to_subdata = snd t, recipient = username, kind = notify_type n, payload = data\<rparr>"

definition action_of :: "int \<Rightarrow> string notification \<Rightarrow> string \<times> json \<Rightarrow> action" where
  "action_of now n t =
     \<lparr>action_nid = nid n, action_to_username = to_username n, transport = fst t,
      action_priority_level = priority_level n, status = ''Sent'', created_at = now\<rparr>"

definition returns :: "configured \<Rightarrow> string \<Rightarrow> message \<Rightarrow> bool" where
  "returns configured_transports name msg =
     (case configured_transports name of Some send_notification \<Rightarrow> send_notification msg | None \<Rightarrow> False)"

section \<open>Example states\<close>

definition vote_to_bob :: "string notification" where
  "vote_to_bob =
     \<lparr>nid = ''n1'', notify_type = ''vote'', to_username = ''bob'',
      from_username = Some ''alice'', json_data = Some (JObj [(''weight'', JNum 10000)]),
      priority_level = 2, trx_id = Some ''T1''\<rparr>"

definition vote_again :: "string option notification" where
  "vote_again =
     \<lparr>nid = None, notify_type = ''vote'', to_username = ''bob'',
      from_username = Some ''alice'', json_data = Some (JObj [(''weight'', JNum 10000)]),
      priority_level = 2, trx_id = Some ''T1''\<rparr>"

definition follow_to_bob :: "string notification" where
  "follow_to_bob =
     \<lparr>nid = ''n0'', notify_type = ''follow'', to_username = ''bob'',
      from_username = Some ''carol'', json_data = Some (JObj []),
      priority_level = 2, trx_id = Some ''T0''\<rparr>"

definition urgent_to_bob :: "string notification" where
  "urgent_to_bob =
     \<lparr>nid = ''n2'', notify_type = ''message'', to_username = ''bob'',
      from_username = None, json_data = Some (JObj []),
      priority_level = 4, trx_id = None\<rparr>"

definition held_status :: chain_status where
  "held_status =
     \<lparr>last_processed_block = Some 100, last_processed_time = 0,
      lock_expires = timedelta 30, active_follower_id = Some ''A''\<rparr>"

definition bob_votes_on_mock :: "(string \<times> transports) list" where
  "bob_votes_on_mock =
     [(''bob'', [(''mock'', \<lparr>notification_types = [''vote''], sub_data = JStr []\<rparr>)])]"

definition one_vote_db :: yo_database where
  "one_vote_db =
     \<lparr>notifications = [vote_to_bob], actions = [], user_settings = bob_votes_on_mock,
      chain_status_table = [held_status], execute_raises = False\<rparr>"

definition follow_vote_db :: yo_database where
  "follow_vote_db =
     \<lparr>notifications = [follow_to_bob, vote_to_bob], actions = [],
      user_settings = bob_votes_on_mock, chain_status_table = [], execute_raises = False\<rparr>"

definition mock_returns :: configured where
  "mock_returns = [''mock'' \<mapsto> (\<lambda>m. True)]"

definition mock_raises :: configured where
  "mock_raises = [''mock'' \<mapsto> (\<lambda>m. False)]"

definition carol_votes_on_two :: "(string \<times> transports) list" where
  "carol_votes_on_two =
     [(''carol'', [(''mock'', \<lparr>notification_types = [''vote''], sub_data = JStr ''m''\<rparr>),
                  (''flaky'', \<lparr>notification_types = [''vote'', ''follow''], sub_data = JStr ''f''\<rparr>)])]"

definition vote_to_carol :: "string notification" where
  "vote_to_carol =
     \<lparr>nid = ''n5'', notify_type = ''vote'', to_username = ''carol'',
      from_username = Some ''alice'', json_data = Some (JObj []),
      priority_level = 2, trx_id = Some ''T5''\<rparr>"

definition carol_db :: yo_database where
  "carol_db =
     \<lparr>notifications = [vote_to_carol], actions = [], user_settings = carol_votes_on_two,
      chain_status_table = [], execute_raises = False\<rparr>"

definition mock_and_flaky :: configured where
  "mock_and_flaky = [''mock'' \<mapsto> (\<lambda>m. True), ''flaky'' \<mapsto> (\<lambda>m. False)]"

definition follow_two_signers :: blockchain_op where
  "follow_two_signers =
     \<lparr>op_trx_id = ''T7'',
      op = custom_json [] [''alice'', ''mallory''] ''follow''
             (JArr [JStr ''follow'',
                    JObj [(''follower'', JStr ''alice''), (''following'', JStr ''bob''),
                          (''what'', JArr [JStr ''blog''])]])\<rparr>"

definition reblog_wrong_signer :: blockchain_op where
  "reblog_wrong_signer =
     \<lparr>op_trx_id = ''T8'',
      op = custom_json [] [''mallory''] ''follow''
             (JArr [JStr ''reblog'',
                    JObj [(''account'', JStr ''alice''), (''author'', JStr ''bob''),
                          (''permlink'', JStr ''a-post'')]])\<rparr>"

definition follow_lacking_following :: blockchain_op where
  "follow_lacking_following =
     \<lparr>op_trx_id = ''T11'',
      op = custom_json [] [''alice'', ''mallory''] ''follow''
             (JArr [JStr ''follow'', JObj [(''follower'', JStr ''alice'')]])\<rparr>"

definition reblog_lacking_permlink :: blockchain_op where
  "reblog_lacking_permlink =
     \<lparr>op_trx_id = ''T12'',
      op = custom_json [] [''mallory''] ''follow''
             (JArr [JStr ''reblog'',
                    JObj [(''account'', JStr ''alice''), (''author'', JStr ''bob'')]])\<rparr>"

definition comment_ending_in_mention :: blockchain_op where
  "comment_ending_in_mention =
     \<lparr>op_trx_id = ''T9'',
      op = comment [] ''life'' ''alice'' ''a-post'' ''Title'' ''thanks @bob'' []\<rparr>"

definition comment_repeating_mention :: blockchain_op where
  "comment_repeating_mention =
     \<lparr>op_trx_id = ''T10'',
      op = comment [] ''life'' ''alice'' ''b-post'' ''Title'' ''@bob @bob and @carol-2 too'' []\<rparr>"

definition empty_follower_state :: follower_state where
  "empty_follower_state =
     \<lparr>store = \<lparr>notifications = [], actions = [], user_settings = [],
                chain_status_table = [], execute_raises = False\<rparr>,
      drawn = 0\<rparr>"

section \<open>Duplicate inserts\<close>

lemma duplicate_message_nid:
  "is_duplicate_entry_error (IntegrityError ''UNIQUE constraint failed: yo_notifications.nid'')"
  by (simp add: is_duplicate_entry_error_def lower_char_def)

lemma duplicate_message_key:
  "is_duplicate_entry_error (IntegrityError ''UNIQUE constraint failed: yo_notifications.to_username, yo_notifications.notify_type, yo_notifications.trx_id, yo_notifications.from_username'')"
  by (simp add: is_duplicate_entry_error_def lower_char_def)

lemma insert_notification_conflict:
  assumes "\<not> execute_raises db" and "list_ex (same_key row) (notifications db)"
  shows "\<exists>e. insert_notification db row = Inl e \<and> is_duplicate_entry_error e"
  using assms duplicate_message_nid duplicate_message_key
  by (simp add: insert_notification_def)

text \<open>
  C1. When a stored row has the key tuple (to_username, notify_type, trx_id,
  from_username) of the notification, \<open>create_notification\<close> leaves the store as it
  is, so no second row appears, but the boolean it returns is \<open>False\<close>, the value of
  an error; \<open>private_create_notification\<close> returns \<open>True\<close> on the same input.
\<close>

theorem create_notification_duplicate:
  assumes "\<not> execute_raises db"
    and "row = with_nid (case nid n of None \<Rightarrow> uuid | Some i \<Rightarrow> i) n"
    and "list_ex (same_key row) (notifications db)"
  shows "create_notification db uuid n = (False, db) \<and>
         private_create_notification db row = (True, db)"
proof -
  obtain e where "insert_notification db row = Inl e" and "is_duplicate_entry_error e"
    using insert_notification_conflict [OF assms(1) assms(3)] by blast
  then show ?thesis
    using assms(2) by (simp add: create_notification_def private_create_notification_def)
qed

theorem create_notification_duplicate_witness:
  "\<not> execute_raises one_vote_db \<and>
   list_ex (same_key (with_nid ''n9'' vote_again)) (notifications one_vote_db) \<and>
   create_notification one_vote_db ''n9'' vote_again = (False, one_vote_db) \<and>
   private_create_notification one_vote_db (with_nid ''n9'' vote_again) = (True, one_vote_db)"
  using create_notification_duplicate
    [where db = one_vote_db and n = vote_again and uuid = "''n9''"
       and row = "with_nid ''n9'' vote_again"]
  by (simp add: one_vote_db_def vote_again_def vote_to_bob_def with_nid_def same_key_def)

section \<open>The lease\<close>

lemma try_active_follower_held:
  assumes "get_chain_status db = Inr (Some st)" and "now < lock_expires st"
    and "try_active_follower db now a blk t = (r, db')"
  shows "r = Inr (Some st) \<and> get_chain_status db' = Inr (Some st)"
  using assms
  by (auto simp add: try_active_follower_def get_chain_status_def Let_def
      split: if_splits list.splits)

text \<open>
  C4. While the lease of the recorded status \<open>st\<close> has not expired, two
  \<open>try_active_follower\<close> calls, one after the other, both return \<open>st\<close> and leave it
  recorded: \<open>active_follower_id\<close> and \<open>last_processed_block\<close> are unchanged, and of
  two different candidates at most one is the recorded holder.
\<close>

theorem try_active_follower_before_expiry:
  assumes "get_chain_status db = Inr (Some st)"
    and "now1 < lock_expires st" and "now2 < lock_expires st"
    and "try_active_follower db now1 a blk1 lt1 = (r1, db1)"
    and "try_active_follower db1 now2 b blk2 lt2 = (r2, db2)"
  shows "r1 = Inr (Some st) \<and> r2 = Inr (Some st) \<and>
         get_chain_status db1 = Inr (Some st) \<and> get_chain_status db2 = Inr (Some st) \<and>
         (a \<noteq> b \<longrightarrow> \<not> (active_follower_id st = a \<and> active_follower_id st = b))"
proof -
  have first: "r1 = Inr (Some st) \<and> get_chain_status db1 = Inr (Some st)"
    using try_active_follower_held [OF assms(1) assms(2) assms(4)] .
  then have "r2 = Inr (Some st) \<and> get_chain_status db2 = Inr (Some st)"
    using try_active_follower_held [OF _ assms(3) assms(5)] by blast
  with first show ?thesis by auto
qed

theorem try_active_follower_before_expiry_witness:
  "get_chain_status one_vote_db = Inr (Some held_status) \<and>
   timedelta 10 < lock_expires held_status \<and> timedelta 20 < lock_expires held_status \<and>
   try_active_follower one_vote_db (timedelta 10) (Some ''B'') None 30 =
     (Inr (Some held_status), one_vote_db) \<and>
   try_active_follower one_vote_db (timedelta 20) (Some ''C'') None 30 =
     (Inr (Some held_status), one_vote_db) \<and>
   Some ''B'' \<noteq> Some ''C'' \<and> active_follower_id held_status = Some ''A''"
  using try_active_follower_before_expiry
    [where db = one_vote_db and st = held_status and ?now1.0 = "timedelta 10"
       and ?now2.0 = "timedelta 20" and a = "Some ''B''" and b = "Some ''C''"
       and ?blk1.0 = None and ?blk2.0 = None and ?lt1.0 = 30 and ?lt2.0 = 30
       and ?db1.0 = one_vote_db and ?db2.0 = one_vote_db
       and ?r1.0 = "Inr (Some held_status)" and ?r2.0 = "Inr (Some held_status)"]
  by (simp add: try_active_follower_def get_chain_status_def one_vote_db_def held_status_def
      timedelta_def)

text \<open>
  C5. \<open>try_update_status\<close> on a recorded status \<open>st\<close> returns the recorded status
  \<open>st'\<close>, whose \<open>last_processed_block\<close> is not below that of \<open>st\<close>; \<open>st'\<close> differs
  from \<open>st\<close> only when the caller is the recorded \<open>active_follower_id\<close> and the new
  block is at least the recorded one; and when both hold, \<open>last_processed_block\<close> is
  the new block, \<open>last_processed_time\<close> is \<open>now\<close> and \<open>lock_expires\<close> is \<open>now\<close>
  plus the lease.
\<close>

theorem try_update_status_monotonic:
  assumes "get_chain_status db = Inr (Some st)"
    and "try_update_status db now follower_id block lock_timeout = (r, db')"
  shows "\<exists>st'. r = Inr (Some st') \<and> get_chain_status db' = Inr (Some st') \<and>
      (case last_processed_block st of
         None \<Rightarrow> last_processed_block st' = None
       | Some old \<Rightarrow> (\<exists>new. last_processed_block st' = Some new \<and> old \<le> new)) \<and>
      (st' \<noteq> st \<longrightarrow>
         active_follower_id st = follower_id \<and>
         (\<exists>old new. last_processed_block st = Some old \<and> block = Some new \<and> old \<le> new)) \<and>
      (active_follower_id st = follower_id \<and> sql_le (last_processed_block st) block \<longrightarrow>
         st' = st\<lparr>last_processed_block := block, last_processed_time := now,
                  lock_expires := now + timedelta lock_timeout\<rparr>)"
  using assms
  by (auto simp add: try_update_status_def get_chain_status_def sql_le_def Let_def
      split: if_splits list.splits option.splits)

theorem try_update_status_monotonic_witness:
  "get_chain_status one_vote_db = Inr (Some held_status) \<and>
   fst (try_update_status one_vote_db (timedelta 12) (Some ''A'') (Some 101) 27) =
     Inr (Some \<lparr>last_processed_block = Some 101, last_processed_time = timedelta 12,
               lock_expires = timedelta 39, active_follower_id = Some ''A''\<rparr>) \<and>
   fst (try_update_status one_vote_db (timedelta 12) (Some ''A'') (Some 99) 27) =
     Inr (Some held_status) \<and>
   fst (try_update_status one_vote_db (timedelta 12) (Some ''B'') (Some 101) 27) =
     Inr (Some held_status)"
  using try_update_status_monotonic
    [where db = one_vote_db and st = held_status and now = "timedelta 12"
       and follower_id = "Some ''A''" and block = "Some 101" and lock_timeout = 27
       and r = "fst (try_update_status one_vote_db (timedelta 12) (Some ''A'') (Some 101) 27)"
       and db' = "snd (try_update_status one_vote_db (timedelta 12) (Some ''A'') (Some 101) 27)"]
  by (simp add: try_update_status_def get_chain_status_def one_vote_db_def held_status_def
      timedelta_def sql_le_def)

section \<open>The priority count and the rate limit\<close>

lemma get_priority_count_up:
  "\<not> execute_raises db \<Longrightarrow>
   get_priority_count db now u p w None = int (count_at_or_above (actions db) now u p w)"
  by (simp add: get_priority_count_def select_actions_def count_at_or_above_def Let_def
      conj_commute conj_left_commute)

lemma get_priority_count_down:
  "execute_raises db \<Longrightarrow> get_priority_count db now u p w s = 0"
  by (simp add: get_priority_count_def select_actions_def)

lemma get_priority_count_nonneg: "0 \<le> get_priority_count db now u p w s"
  by (simp add: get_priority_count_def Let_def)

lemma count_at_or_above_append:
  "count_at_or_above (xs @ [a]) now u p w =
     count_at_or_above xs now u p w +
       (if action_to_username a = u \<and> p \<le> action_priority_level a \<and>
           now - timedelta w \<le> created_at a then 1 else 0)"
  by (simp add: count_at_or_above_def)

lemma mark_sent_up:
  assumes "\<not> execute_raises db"
  shows "\<not> execute_raises (snd (mark_sent db now n t))"
    and "actions (snd (mark_sent db now n t)) = actions db @
      [\<lparr>action_nid = nid n, action_to_username = to_username n, transport = t,
        action_priority_level = priority_level n, status = ''Sent'', created_at = now\<rparr>]"
  using assms by (simp_all add: mark_sent_def)

text \<open>
  When no action is stamped later than \<open>now\<close>, the actions counted are those
  created in the closed interval from \<open>now\<close> minus the window to \<open>now\<close>.
\<close>

lemma count_at_or_above_interval:
  assumes "list_all (\<lambda>a. created_at a \<le> now) ledger"
  shows "count_at_or_above ledger now u p w =
     length [a \<leftarrow> ledger. action_to_username a = u \<and> p \<le> action_priority_level a \<and>
               now - timedelta w \<le> created_at a \<and> created_at a \<le> now]"
  using assms by (induction ledger) (auto simp add: count_at_or_above_def)

text \<open>
  C6. When the query does not raise, \<open>get_priority_count\<close> is the number of actions
  of the user with a priority level at or above the given one, created within the
  trailing window; and after \<open>mark_sent\<close> has recorded an action of PRIORITY level
  at a time within the trailing hour, the count of a LOW admission check for the same
  user is one more.
\<close>

theorem get_priority_count_at_or_above:
  assumes "\<not> execute_raises db"
  shows "get_priority_count db now u p w None = int (count_at_or_above (actions db) now u p w) \<and>
    (priority_level n = PRIORITY \<and> later - timedelta 3600 \<le> sent_at \<longrightarrow>
       get_priority_count (snd (mark_sent db sent_at n t)) later (to_username n) LOW 3600 None =
       get_priority_count db later (to_username n) LOW 3600 None + 1)"
  using assms
  by (simp add: get_priority_count_up mark_sent_up count_at_or_above_append PRIORITY_def LOW_def)

theorem get_priority_count_at_or_above_witness:
  "\<not> execute_raises one_vote_db \<and>
   get_priority_count one_vote_db (timedelta 100) ''bob'' LOW 3600 None = 0 \<and>
   count_at_or_above (actions one_vote_db) (timedelta 100) ''bob'' LOW 3600 = 0 \<and>
   priority_level urgent_to_bob = PRIORITY \<and> timedelta 100 - timedelta 3600 \<le> timedelta 40 \<and>
   get_priority_count (snd (mark_sent one_vote_db (timedelta 40) urgent_to_bob ''mock''))
     (timedelta 100) ''bob'' LOW 3600 None = 1"
  using get_priority_count_at_or_above
    [where db = one_vote_db and now = "timedelta 100" and u = "''bob''" and p = LOW
       and w = 3600 and n = urgent_to_bob and later = "timedelta 100"
       and sent_at = "timedelta 40" and t = "''mock''"]
  by (simp add: one_vote_db_def urgent_to_bob_def count_at_or_above_def PRIORITY_def
      timedelta_def)

text \<open>
  C7. For a LOW notification, when the query does not raise, \<open>check_ratelimit\<close>
  without override holds iff the count at or above LOW over the trailing 3600 seconds
  is 0, and with override iff that count is below 10. Hence, when that count is 0 and
  the delivery of the notification is recorded, a second LOW notification to the same
  user checked within the hour is denied, the first having been allowed.
\<close>

theorem check_ratelimit_low:
  assumes "\<not> execute_raises db" and "priority_level n = LOW"
  shows "check_ratelimit db now n False =
           (count_at_or_above (actions db) now (to_username n) LOW 3600 = 0) \<and>
         check_ratelimit db now n True =
           (count_at_or_above (actions db) now (to_username n) LOW 3600 < 10) \<and>
         (count_at_or_above (actions db) now (to_username n) LOW 3600 = 0 \<and>
          priority_level m = LOW \<and> to_username m = to_username n \<and>
          later - timedelta 3600 \<le> now \<longrightarrow>
            check_ratelimit db now n False \<and>
            \<not> check_ratelimit (snd (mark_sent db now n t)) later m False)"
proof -
  have here: "check_ratelimit db now n ov =
      (if ov then count_at_or_above (actions db) now (to_username n) LOW 3600 < 10
       else count_at_or_above (actions db) now (to_username n) LOW 3600 = 0)" for ov
    using assms(2)
    by (simp add: check_ratelimit_def get_priority_count_up [OF assms(1)]
        LOW_def ALWAYS_def PRIORITY_def NORMAL_def Let_def)
  have after: "check_ratelimit (snd (mark_sent db now n t)) later m False =
      (count_at_or_above (actions (snd (mark_sent db now n t))) later (to_username m) LOW 3600 = 0)"
    if "priority_level m = LOW"
    using that
    by (simp add: check_ratelimit_def get_priority_count_up [OF mark_sent_up(1) [OF assms(1)]]
        LOW_def ALWAYS_def PRIORITY_def NORMAL_def Let_def)
  show ?thesis
    using here [of False] here [of True] after assms
    by (auto simp add: mark_sent_up(2) count_at_or_above_append LOW_def)
qed

theorem check_ratelimit_low_witness:
  "\<not> execute_raises one_vote_db \<and> priority_level vote_to_bob = LOW \<and>
   count_at_or_above (actions one_vote_db) (timedelta 5) ''bob'' LOW 3600 = 0 \<and>
   priority_level follow_to_bob = LOW \<and> to_username follow_to_bob = to_username vote_to_bob \<and>
   timedelta 65 - timedelta 3600 \<le> timedelta 5 \<and>
   check_ratelimit one_vote_db (timedelta 5) vote_to_bob False \<and>
   check_ratelimit one_vote_db (timedelta 5) vote_to_bob True \<and>
   \<not> check_ratelimit (snd (mark_sent one_vote_db (timedelta 5) vote_to_bob ''mock''))
       (timedelta 65) follow_to_bob False"
  using check_ratelimit_low
    [where db = one_vote_db and n = vote_to_bob and now = "timedelta 5" and m = follow_to_bob
       and later = "timedelta 65" and t = "''mock''"]
  by (simp add: one_vote_db_def vote_to_bob_def follow_to_bob_def count_at_or_above_def
      LOW_def timedelta_def)

text \<open>
  C10. \<open>get_priority_count\<close> is never negative; when the query raises it is 0, and
  \<open>check_ratelimit\<close> then answers as it does on a store with no action at all.
\<close>

theorem get_priority_count_fails_open:
  "0 \<le> get_priority_count db now u p w s \<and>
   (execute_raises db \<longrightarrow>
      get_priority_count db now u p w s = 0 \<and>
      check_ratelimit db now n ov =
        check_ratelimit (db\<lparr>actions := [], execute_raises := False\<rparr>) now n ov)"
proof -
  have "get_priority_count (db\<lparr>actions := [], execute_raises := False\<rparr>) now v q x None = 0"
    for v q x
    by (simp add: get_priority_count_def select_actions_def)
  then show ?thesis
    by (simp add: get_priority_count_nonneg get_priority_count_down check_ratelimit_def)
qed

theorem get_priority_count_fails_open_witness:
  "execute_raises (one_vote_db\<lparr>actions := [\<lparr>action_nid = ''n1'', action_to_username = ''bob'',
       transport = ''mock'', action_priority_level = 2, status = ''Sent'',
       created_at = timedelta 5\<rparr>], execute_raises := True\<rparr>) \<and>
   get_priority_count (one_vote_db\<lparr>actions := [\<lparr>action_nid = ''n1'', action_to_username = ''bob'',
       transport = ''mock'', action_priority_level = 2, status = ''Sent'',
       created_at = timedelta 5\<rparr>], execute_raises := True\<rparr>) (timedelta 6) ''bob'' LOW 3600 None = 0 \<and>
   check_ratelimit (one_vote_db\<lparr>actions := [\<lparr>action_nid = ''n1'', action_to_username = ''bob'',
       transport = ''mock'', action_priority_level = 2, status = ''Sent'',
       created_at = timedelta 5\<rparr>], execute_raises := True\<rparr>) (timedelta 6) follow_to_bob False"
  using get_priority_count_fails_open
    [where db = "one_vote_db\<lparr>actions := [\<lparr>action_nid = ''n1'', action_to_username = ''bob'',
       transport = ''mock'', action_priority_level = 2, status = ''Sent'',
       created_at = timedelta 5\<rparr>], execute_raises := True\<rparr>"
     and now = "timedelta 6" and u = "''bob''" and p = LOW and w = 3600 and s = None
     and n = follow_to_bob and ov = False]
  by (simp add: one_vote_db_def follow_to_bob_def check_ratelimit_def get_priority_count_def
      select_actions_def LOW_def ALWAYS_def PRIORITY_def NORMAL_def)

section \<open>The dispatch cycle\<close>

lemma add_notify_type_other:
  "ty \<notin> set tys \<Longrightarrow> foldl (add_notify_type t) d tys ty = d ty"
  by (induction tys arbitrary: d) (auto simp add: add_notify_type_def)

lemma notify_types_transports_unlisted_from:
  "list_all (\<lambda>e. ty \<notin> set (notification_types (snd e))) ut \<Longrightarrow>
   foldl (\<lambda>d entry. foldl (add_notify_type (fst entry, sub_data (snd entry))) d
                        (notification_types (snd entry))) d ut ty = d ty"
  by (induction ut arbitrary: d) (auto simp add: add_notify_type_other)

lemma notify_types_transports_unlisted:
  "list_all (\<lambda>e. ty \<notin> set (notification_types (snd e))) ut \<Longrightarrow>
   notify_types_transports ut ty = None"
  by (simp add: notify_types_transports_def notify_types_transports_unlisted_from)

lemma add_notify_type_fold:
  "foldl (add_notify_type t) d tys ty =
     (if ty \<in> set tys
      then Some ((case d ty of None \<Rightarrow> [] | Some l \<Rightarrow> l) @ replicate (count_list tys ty) t)
      else d ty)"
  by (induction tys arbitrary: d) (auto simp add: add_notify_type_def replicate_app_Cons_same)

lemma count_list_pos: "0 < count_list xs x \<longleftrightarrow> x \<in> set xs"
  using count_list_0_iff [of xs x] by auto

lemma notify_types_transports_fold:
  "foldl (\<lambda>d entry. foldl (add_notify_type (fst entry, sub_data (snd entry))) d
                        (notification_types (snd entry))) d ut ty =
     (if list_ex (\<lambda>e. ty \<in> set (notification_types (snd e))) ut
      then Some ((case d ty of None \<Rightarrow> [] | Some l \<Rightarrow> l) @
                 concat (map (\<lambda>e. replicate (count_list (notification_types (snd e)) ty)
                                      (fst e, sub_data (snd e))) ut))
      else d ty)"
  by (induction ut arbitrary: d)
     (auto simp add: add_notify_type_fold list_ex_iff count_list_0_iff)

text \<open>
  The entries of \<open>user_notify_types_transports\<close> for a type are the transports of the
  user's settings that list the type.
\<close>

lemma enabled_transports:
  assumes "notify_types_transports ut ty = Some ts"
  shows "set ts =
     {(fst e, sub_data (snd e)) | e. e \<in> set ut \<and> ty \<in> set (notification_types (snd e))}"
proof -
  have "ts = concat (map (\<lambda>e. replicate (count_list (notification_types (snd e)) ty)
                                 (fst e, sub_data (snd e))) ut)"
    using assms
    by (simp add: notify_types_transports_def notify_types_transports_fold split: if_splits)
  then show ?thesis
    by (auto simp add: count_list_pos)
qed

text \<open>
  C3. A notification that passes the rate limit while no transport of the recipient's
  settings lists its type is handed to no transport, but the cycle does not go on:
  the subscript of \<open>user_notify_types_transports\<close> raises \<open>KeyError\<close> outside every
  \<^verbatim>\<open>try\<close>, and the exception leaves the loop over the notifications and the loop
  over the users, with the remaining notifications and users unprocessed.
\<close>

theorem unlisted_type_raises:
  assumes "get_user_transports (database w) u False = (Some ut, db')"
    and "list_all (\<lambda>e. notify_type n \<notin> set (notification_types (snd e))) ut"
    and "check_ratelimit db' now n False"
  shows "send_to_user cfg now (u, n # rest) w = (Some KeyError, w\<lparr>database := db'\<rparr>) \<and>
         for_users cfg now ((u, n # rest) # others) w = (Some KeyError, w\<lparr>database := db'\<rparr>)"
proof -
  have "send_to_user cfg now (u, n # rest) w = (Some KeyError, w\<lparr>database := db'\<rparr>)"
    using assms
    by (simp add: send_to_user_def send_notification_to_user_def notify_types_transports_unlisted)
  then show ?thesis by simp
qed

theorem unlisted_type_raises_witness:
  "get_user_transports follow_vote_db ''bob'' False
     = (Some [(''mock'', \<lparr>notification_types = [''vote''], sub_data = JStr []\<rparr>)], follow_vote_db) \<and>
   check_ratelimit follow_vote_db 0 follow_to_bob False \<and>
   get_wwwpoll_unsents follow_vote_db = Inr [(''bob'', [follow_to_bob, vote_to_bob])] \<and>
   run_send_notify mock_returns 0 \<lparr>database = follow_vote_db, calls = []\<rparr> =
     (Some KeyError, \<lparr>database = follow_vote_db, calls = []\<rparr>)"
  using unlisted_type_raises
    [where w = "\<lparr>database = follow_vote_db, calls = []\<rparr>" and u = "''bob''"
       and ut = "[(''mock'', \<lparr>notification_types = [''vote''], sub_data = JStr []\<rparr>)]"
       and db' = follow_vote_db and n = follow_to_bob and now = 0 and rest = "[vote_to_bob]"
       and others = "[]" and cfg = mock_returns]
  by (simp add: run_send_notify_def get_wwwpoll_unsents_def unsent_nids_def
      List.map_filter_def follow_vote_db_def
      bob_votes_on_mock_def follow_to_bob_def vote_to_bob_def select_user_transports_def
      check_ratelimit_def get_priority_count_def select_actions_def
      LOW_def ALWAYS_def PRIORITY_def NORMAL_def)

lemma send_to_transport_effect:
  "send_to_transport cfg now u n w t =
     (case json_data n of
        None \<Rightarrow> w
      | Some data \<Rightarrow>
          w\<lparr>database := (database w)\<lparr>actions := actions (database w) @
                 (if returns cfg (fst t) (message_of u n data t) \<and> \<not> execute_raises (database w)
                  then [action_of now n t] else [])\<rparr>,
            calls := calls w @
                 (if cfg (fst t) \<noteq> None
                  then [(fst t, message_of u n data t, returns cfg (fst t) (message_of u n data t))]
                  else [])\<rparr>)"
  by (auto simp add: send_to_transport_def mark_sent_def returns_def message_of_def action_of_def
      Let_def split: option.splits)

lemma send_loop_no_payload:
  "json_data n = None \<Longrightarrow> foldl (send_to_transport cfg now u n) w ts = w"
  by (induction ts arbitrary: w) (simp_all add: send_to_transport_effect)

lemma send_loop_effect:
  assumes "json_data n = Some data"
  shows "foldl (send_to_transport cfg now u n) w ts =
     w\<lparr>database := (database w)\<lparr>actions := actions (database w) @
            (if execute_raises (database w) then []
             else map (action_of now n)
                    (filter (\<lambda>t. returns cfg (fst t) (message_of u n data t)) ts))\<rparr>,
       calls := calls w @
            map (\<lambda>t. (fst t, message_of u n data t, returns cfg (fst t) (message_of u n data t)))
                (filter (\<lambda>t. cfg (fst t) \<noteq> None) ts)\<rparr>"
proof (induction ts arbitrary: w)
  case Nil
  then show ?case by simp
next
  case (Cons t ts)
  let ?w = "send_to_transport cfg now u n w t"
  have step: "?w = w\<lparr>database := (database w)\<lparr>actions := actions (database w) @
                 (if returns cfg (fst t) (message_of u n data t) \<and> \<not> execute_raises (database w)
                  then [action_of now n t] else [])\<rparr>,
            calls := calls w @
                 (if cfg (fst t) \<noteq> None
                  then [(fst t, message_of u n data t, returns cfg (fst t) (message_of u n data t))]
                  else [])\<rparr>"
    using assms by (simp add: send_to_transport_effect)
  show ?case
    using Cons.IH [of ?w] by (simp add: step)
qed

text \<open>
  C2, as amended. For a notification that passes the rate limit, the loop over the
  transports enabled for its type calls \<open>send_notification\<close> once, in order, for every
  entry whose transport is configured, when the notification has a payload, and for
  none when \<open>json_data\<close> is NULL. It records one action for every entry whose call
  returned, when the insert of the action does not raise. A call or an insert that
  raises is caught, leaves no action, and the loop goes on with the next entry; no
  exception leaves the step.
\<close>

theorem approved_notification_attempts:
  assumes "check_ratelimit (database w) now n False"
    and "d (notify_type n) = Some ts"
  shows "\<exists>w'. send_notification_to_user cfg now u d n w = (None, w') \<and>
      calls w' = calls w @
        (case json_data n of
           None \<Rightarrow> []
         | Some data \<Rightarrow>
             map (\<lambda>t. (fst t, message_of u n data t, returns cfg (fst t) (message_of u n data t)))
                 (filter (\<lambda>t. cfg (fst t) \<noteq> None) ts)) \<and>
      actions (database w') = actions (database w) @
        (case json_data n of
           None \<Rightarrow> []
         | Some data \<Rightarrow>
             if execute_raises (database w) then []
             else map (action_of now n)
                    (filter (\<lambda>t. returns cfg (fst t) (message_of u n data t)) ts))"
proof (cases "json_data n")
  case None
  then show ?thesis
    using assms by (simp add: send_notification_to_user_def send_loop_no_payload)
next
  case (Some data)
  then show ?thesis
    using assms by (simp add: send_notification_to_user_def send_loop_effect [OF Some])
qed

text \<open>
  The claim as stated fails in four ways, each on an approved notification and a
  transport enabled for its type. A transport that raises is called, and no action is
  recorded. A transport that the sender has not configured is not called. A
  notification whose \<open>json_data\<close> is NULL is sent to no transport. And when the
  insert of the action raises after a send that returned, no action is recorded.
\<close>

theorem send_failure_records_no_action:
  "check_ratelimit one_vote_db 0 vote_to_bob False \<and>
   notify_types_transports [(''mock'', \<lparr>notification_types = [''vote''], sub_data = JStr []\<rparr>)] ''vote''
     = Some [(''mock'', JStr [])] \<and>
   run_send_notify mock_raises 0 \<lparr>database = one_vote_db, calls = []\<rparr> =
     (None,
      \<lparr>database = one_vote_db,
       calls = [(''mock'',
                 \<lparr>to_subdata = JStr [], recipient = ''bob'', kind = ''vote'',
                  payload = JObj [(''weight'', JNum 10000)]\<rparr>,
                 False)]\<rparr>) \<and>
   actions (database (snd (run_send_notify mock_raises 0
                             \<lparr>database = one_vote_db, calls = []\<rparr>))) = [] \<and>
   run_send_notify Map.empty 0 \<lparr>database = one_vote_db, calls = []\<rparr> =
     (None, \<lparr>database = one_vote_db, calls = []\<rparr>) \<and>
   json_data (vote_to_bob\<lparr>json_data := None\<rparr>) = None \<and>
   check_ratelimit (one_vote_db\<lparr>notifications := [vote_to_bob\<lparr>json_data := None\<rparr>]\<rparr>) 0
     (vote_to_bob\<lparr>json_data := None\<rparr>) False \<and>
   run_send_notify mock_returns 0
       \<lparr>database = one_vote_db\<lparr>notifications := [vote_to_bob\<lparr>json_data := None\<rparr>]\<rparr>,
        calls = []\<rparr> =
     (None,
      \<lparr>database = one_vote_db\<lparr>notifications := [vote_to_bob\<lparr>json_data := None\<rparr>]\<rparr>,
       calls = []\<rparr>) \<and>
   check_ratelimit (one_vote_db\<lparr>execute_raises := True\<rparr>) 0 vote_to_bob False \<and>
   send_notification_to_user mock_returns 0 ''bob''
       (notify_types_transports
          [(''mock'', \<lparr>notification_types = [''vote''], sub_data = JStr []\<rparr>)])
       vote_to_bob \<lparr>database = one_vote_db\<lparr>execute_raises := True\<rparr>, calls = []\<rparr> =
     (None,
      \<lparr>database = one_vote_db\<lparr>execute_raises := True\<rparr>,
       calls = [(''mock'',
                 \<lparr>to_subdata = JStr [], recipient = ''bob'', kind = ''vote'',
                  payload = JObj [(''weight'', JNum 10000)]\<rparr>,
                 True)]\<rparr>)"
  by (simp add: run_send_notify_def get_wwwpoll_unsents_def unsent_nids_def List.map_filter_def
      one_vote_db_def
      bob_votes_on_mock_def vote_to_bob_def select_user_transports_def send_to_user_def
      send_notification_to_user_def send_to_transport_def notify_types_transports_def
      add_notify_type_def mock_raises_def mock_returns_def mark_sent_def
      check_ratelimit_def get_priority_count_def select_actions_def
      LOW_def ALWAYS_def PRIORITY_def NORMAL_def)

theorem approved_notification_attempts_witness:
  "check_ratelimit carol_db 7 vote_to_carol False \<and>
   notify_types_transports (snd (hd carol_votes_on_two)) ''vote'' =
     Some [(''mock'', JStr ''m''), (''flaky'', JStr ''f'')] \<and>
   send_notification_to_user mock_and_flaky 7 ''carol''
       (notify_types_transports (snd (hd carol_votes_on_two))) vote_to_carol
       \<lparr>database = carol_db, calls = []\<rparr> =
     (None,
      \<lparr>database = carol_db\<lparr>actions :=
          [\<lparr>action_nid = ''n5'', action_to_username = ''carol'', transport = ''mock'',
            action_priority_level = 2, status = ''Sent'', created_at = 7\<rparr>]\<rparr>,
       calls = [(''mock'',
                 \<lparr>to_subdata = JStr ''m'', recipient = ''carol'', kind = ''vote'',
                  payload = JObj []\<rparr>, True),
                (''flaky'',
                 \<lparr>to_subdata = JStr ''f'', recipient = ''carol'', kind = ''vote'',
                  payload = JObj []\<rparr>, False)]\<rparr>)"
  using approved_notification_attempts
    [where w = "\<lparr>database = carol_db, calls = []\<rparr>" and now = 7 and n = vote_to_carol
       and d = "notify_types_transports (snd (hd carol_votes_on_two))"
       and ts = "[(''mock'', JStr ''m''), (''flaky'', JStr ''f'')]"
       and cfg = mock_and_flaky and u = "''carol''"]
  by (simp add: carol_db_def carol_votes_on_two_def vote_to_carol_def mock_and_flaky_def
      notify_types_transports_def add_notify_type_def
      send_notification_to_user_def send_to_transport_def mark_sent_def
      check_ratelimit_def get_priority_count_def select_actions_def
      LOW_def ALWAYS_def PRIORITY_def NORMAL_def)

section \<open>The mention pattern finds the mentions of the specification\<close>

lemma name_char_not_whitespace: "name_char c \<Longrightarrow> \<not> whitespace c"
  by (auto simp add: name_char_def lowercase_def digit_def whitespace_def)

lemma name_char_not_at: "name_char c \<Longrightarrow> c \<noteq> CHR ''@''"
  by (auto simp add: name_char_def lowercase_def digit_def)

lemma whitespace_not_at: "whitespace c \<Longrightarrow> c \<noteq> CHR ''@''"
  by (auto simp add: whitespace_def)

lemma lowercase_not_at: "lowercase c \<Longrightarrow> c \<noteq> CHR ''@''"
  by (auto simp add: lowercase_def)

declare give_back.simps [simp del]

lemma give_back_run:
  "(\<And>i. i < k \<Longrightarrow> i < length rest \<Longrightarrow> \<not> whitespace (rest ! i)) \<Longrightarrow>
   give_back k rest = (if 2 \<le> k \<and> k < length rest \<and> whitespace (rest ! k) then Some k else None)"
proof (induction k rest rule: give_back.induct)
  case (1 k rest)
  show ?case
  proof (cases "k < 2")
    case True
    then show ?thesis by (simp add: give_back.simps [of k rest])
  next
    case False
    show ?thesis
    proof (cases "k < length rest \<and> whitespace (rest ! k)")
      case True
      with False show ?thesis by (simp add: give_back.simps [of k rest])
    next
      case no: False
      have "give_back (k - 1) rest =
          (if 2 \<le> k - 1 \<and> k - 1 < length rest \<and> whitespace (rest ! (k - 1)) then Some (k - 1) else None)"
        using "1.IH" [OF False no] "1.prems" by simp
      moreover have "\<not> (k - 1 < length rest \<and> whitespace (rest ! (k - 1)))"
        using "1.prems" [of "k - 1"] False by auto
      ultimately have "give_back (k - 1) rest = None" by auto
      with False no show ?thesis by (auto simp add: give_back.simps [of k rest])
    qed
  qed
qed

lemma run_length_le: "run_length rest \<le> 15" "run_length rest \<le> length rest"
proof -
  have "run_length rest \<le> length (take 15 rest)"
    unfolding run_length_def by (rule length_takeWhile_le)
  then show "run_length rest \<le> 15" "run_length rest \<le> length rest" by simp_all
qed

lemma run_name_char: "i < run_length rest \<Longrightarrow> name_char (rest ! i)"
proof -
  assume i: "i < run_length rest"
  then have "takeWhile name_char (take 15 rest) ! i = take 15 rest ! i"
    unfolding run_length_def by (rule takeWhile_nth)
  moreover have "takeWhile name_char (take 15 rest) ! i \<in> set (takeWhile name_char (take 15 rest))"
    using i unfolding run_length_def by (rule nth_mem)
  moreover have "i < 15" using i run_length_le(1) [of rest] by simp
  ultimately show ?thesis by (auto dest: set_takeWhileD)
qed

lemma run_length_eq:
  assumes "k \<le> 15" "k < length rest" "list_all name_char (take k rest)" "\<not> name_char (rest ! k)"
  shows "run_length rest = k"
proof -
  have "takeWhile name_char (take 15 rest) = take k (take 15 rest)"
  proof (rule takeWhile_eq_take_P_nth)
    fix i assume "i < k" "i < length (take 15 rest)"
    then show "name_char (take 15 rest ! i)"
      using assms by (auto simp add: list_all_length)
  next
    assume "k < length (take 15 rest)"
    then show "\<not> name_char (take 15 rest ! k)" using assms by simp
  qed
  then show ?thesis using assms by (simp add: run_length_def min_def)
qed

lemma match_here_eq:
  "match_here (a # first # rest) =
     (if a = CHR ''@'' \<and> lowercase first \<and> 2 \<le> run_length rest \<and>
         run_length rest < length rest \<and> whitespace (rest ! run_length rest)
      then Some (first # take (run_length rest) rest, run_length rest + 3) else None)"
proof -
  have "give_back (run_length rest) rest =
      (if 2 \<le> run_length rest \<and> run_length rest < length rest \<and>
          whitespace (rest ! run_length rest) then Some (run_length rest) else None)"
    by (rule give_back_run) (simp add: run_name_char name_char_not_whitespace)
  then show ?thesis
    by (simp add: match_here_def)
qed

lemma mention_here_eq:
  assumes "3 \<le> n" "n < 17"
  shows "mention_here (a # first # rest) n \<longleftrightarrow>
     a = CHR ''@'' \<and> lowercase first \<and> n = run_length rest + 1 \<and> 2 \<le> run_length rest \<and>
     run_length rest < length rest \<and> whitespace (rest ! run_length rest)"
proof
  assume m: "mention_here (a # first # rest) n"
  obtain k where k: "n = Suc k" using assms(1) by (cases n) auto
  from m k have a: "a = CHR ''@''" and f: "lowercase first" and len: "k < length rest"
    and all: "list_all name_char (take k rest)" and ws: "whitespace (rest ! k)"
    by (auto simp add: mention_here_def username_token_def)
  have "\<not> name_char (rest ! k)" using ws name_char_not_whitespace by blast
  then have "run_length rest = k"
    using run_length_eq [of k rest] len all assms(2) k by simp
  then show "a = CHR ''@'' \<and> lowercase first \<and> n = run_length rest + 1 \<and> 2 \<le> run_length rest \<and>
     run_length rest < length rest \<and> whitespace (rest ! run_length rest)"
    using a f len ws k assms(1) by simp
next
  assume r: "a = CHR ''@'' \<and> lowercase first \<and> n = run_length rest + 1 \<and> 2 \<le> run_length rest \<and>
     run_length rest < length rest \<and> whitespace (rest ! run_length rest)"
  have "list_all name_char (take (run_length rest) rest)"
    by (simp add: list_all_length run_name_char)
  then show "mention_here (a # first # rest) n"
    using r assms run_length_le(1) [of rest]
    by (simp add: mention_here_def username_token_def min_def)
qed

lemma filter_only:
  assumes "distinct xs" "\<And>x. x \<in> set xs \<Longrightarrow> P x \<longleftrightarrow> x = m"
  shows "filter P xs = (if m \<in> set xs then [m] else [])"
  using assms by (induction xs) auto

lemma filter_upt_only:
  assumes "\<And>x. lo \<le> x \<Longrightarrow> x < hi \<Longrightarrow> P x \<longleftrightarrow> x = m" and "lo \<le> m" and "m < hi"
  shows "filter P [lo..<hi] = [m]"
proof -
  have "filter P [lo..<hi] = (if m \<in> set [lo..<hi] then [m] else [])"
    by (rule filter_only) (use assms(1) in auto)
  then show ?thesis using assms(2,3) by simp
qed

lemma filter_upt_none:
  assumes "\<And>x. lo \<le> x \<Longrightarrow> x < hi \<Longrightarrow> \<not> P x"
  shows "filter P [lo..<hi] = []"
  using assms by (simp add: filter_empty_conv)

lemma occurrences_here:
  "map (\<lambda>n. take n cs) (filter (mention_here (c # cs)) [3..<17]) =
     (case match_here (c # cs) of Some (g, len) \<Rightarrow> [g] | None \<Rightarrow> [])"
proof (cases cs)
  case Nil
  have "filter (mention_here [c]) [3..<17] = []"
    by (rule filter_upt_none) (simp add: mention_here_def)
  then show ?thesis using Nil by (simp add: match_here_def)
next
  case (Cons first rest)
  let ?ok = "c = CHR ''@'' \<and> lowercase first \<and> 2 \<le> run_length rest \<and>
     run_length rest < length rest \<and> whitespace (rest ! run_length rest)"
  show ?thesis
  proof (cases ?ok)
    case True
    have "filter (mention_here (c # first # rest)) [3..<17] = [run_length rest + 1]"
    proof (rule filter_upt_only)
      fix x :: nat assume "3 \<le> x" "x < 17"
      then show "mention_here (c # first # rest) x \<longleftrightarrow> x = run_length rest + 1"
        using True by (simp add: mention_here_eq)
    next
      show "3 \<le> run_length rest + 1" using True by simp
      show "run_length rest + 1 < 17" using run_length_le(1) [of rest] by simp
    qed
    then show ?thesis using True Cons by (simp add: match_here_eq)
  next
    case False
    have "filter (mention_here (c # first # rest)) [3..<17] = []"
    proof (rule filter_upt_none)
      fix x :: nat assume "3 \<le> x" "x < 17"
      then show "\<not> mention_here (c # first # rest) x"
        using False by (simp add: mention_here_eq)
    qed
    then show ?thesis using False Cons by (simp add: match_here_eq)
  qed
qed

lemma mention_occurrences_Cons:
  "mention_occurrences (c # cs) =
     (case match_here (c # cs) of Some (g, len) \<Rightarrow> [g] | None \<Rightarrow> []) @ mention_occurrences cs"
  by (simp only: mention_occurrences.simps occurrences_here)

lemma match_here_not_at: "c \<noteq> CHR ''@'' \<Longrightarrow> match_here (c # cs) = None"
  by (simp add: match_here_def split: list.splits)

lemma match_here_no_at:
  assumes "match_here (c # cs) = Some (g, len)"
  shows "list_all (\<lambda>x. x \<noteq> CHR ''@'') (take (len - 1) cs)"
proof (cases cs)
  case Nil
  then show ?thesis by simp
next
  case (Cons first rest)
  with assms have ok: "lowercase first" "run_length rest < length rest"
      "whitespace (rest ! run_length rest)" and len: "len = run_length rest + 3"
    by (auto simp add: match_here_eq split: if_splits)
  have "take (Suc (run_length rest)) rest = take (run_length rest) rest @ [rest ! run_length rest]"
    using ok(2) by (simp add: take_Suc_conv_app_nth)
  moreover have "list_all (\<lambda>x. x \<noteq> CHR ''@'') (take (run_length rest) rest)"
    by (simp add: list_all_length run_name_char name_char_not_at)
  ultimately show ?thesis
    using ok len Cons by (simp add: lowercase_not_at whitespace_not_at)
qed

lemma findall_from_occurrences:
  "list_all (\<lambda>x. x \<noteq> CHR ''@'') (take skip s) \<Longrightarrow> findall_from skip s = mention_occurrences s"
proof (induction skip s rule: findall_from.induct)
  case (1 skip)
  then show ?case by simp
next
  case (2 skip c cs)
  then show ?case by (simp add: mention_occurrences_Cons match_here_not_at del: mention_occurrences.simps)
next
  case (3 c cs)
  show ?case
  proof (cases "match_here (c # cs)")
    case None
    then show ?thesis
      using "3.IH"(1) by (simp add: mention_occurrences_Cons del: mention_occurrences.simps)
  next
    case (Some a)
    obtain g len where a: "a = (g, len)" by (cases a)
    have "findall_from (len - 1) cs = mention_occurrences cs"
      using "3.IH"(2) [OF Some a [symmetric]] match_here_no_at Some a by blast
    then show ?thesis
      using Some a by (simp add: mention_occurrences_Cons del: mention_occurrences.simps)
  qed
qed

lemma findall_mentions_occurrences: "findall_mentions s = mention_occurrences s"
  by (simp add: findall_mentions_def findall_from_occurrences)

text \<open>
  C9, as amended. For a comment operation \<open>handle_mention\<close> stores one MENTION
  candidate per occurrence, in the body with a newline appended, of \<^verbatim>\<open>@\<close> and a
  username token followed by white space: so a token that ends the body counts as
  well. \<open>to_username\<close> is the token and \<open>from_username\<close> the author of the comment;
  occurrences are neither merged nor capped.
\<close>

theorem handle_mention_candidates:
  assumes "op bop = comment pa pp a p t b m"
  shows "handle_mention uuid bop w =
           (Inr True, foldl (store_notification uuid) w (mention_candidates bop)) \<and>
         mention_candidates bop =
           map (\<lambda>name.
                  \<lparr>nid = None, notify_type = ''mention'', to_username = name,
                   from_username = Some a,
                   json_data = Some (JObj [(''author'', JStr a), (''permlink'', JStr p)]),
                   priority_level = LOW, trx_id = Some (op_trx_id bop)\<rparr>)
               (mention_occurrences (b @ [CHR 0x0A]))"
  using assms
  by (simp add: handle_mention_def mention_candidates_def findall_mentions_occurrences)

text \<open>
  The claim as stated fails on a body that ends in a mention: no white space follows
  the token in the body, and a candidate is stored.
\<close>

theorem mention_at_end_of_body:
  "body (op comment_ending_in_mention) = ''thanks @bob'' \<and>
   mention_occurrences (body (op comment_ending_in_mention)) = [] \<and>
   map to_username (mention_candidates comment_ending_in_mention) = [''bob'']"
  by code_simp

theorem handle_mention_candidates_witness:
  "op comment_repeating_mention =
     comment [] ''life'' ''alice'' ''b-post'' ''Title'' ''@bob @bob and @carol-2 too'' [] \<and>
   mention_occurrences (''@bob @bob and @carol-2 too'' @ [CHR 0x0A]) =
     [''bob'', ''bob'', ''carol-2''] \<and>
   map to_username (mention_candidates comment_repeating_mention) =
     [''bob'', ''bob'', ''carol-2''] \<and>
   map from_username (mention_candidates comment_repeating_mention) =
     [Some ''alice'', Some ''alice'', Some ''alice'']"
proof -
  have o: "op comment_repeating_mention =
     comment [] ''life'' ''alice'' ''b-post'' ''Title'' ''@bob @bob and @carol-2 too'' []"
    by (simp add: comment_repeating_mention_def)
  have m: "mention_occurrences (''@bob @bob and @carol-2 too'' @ [CHR 0x0A]) =
     [''bob'', ''bob'', ''carol-2'']"
    by code_simp
  have c: "mention_candidates comment_repeating_mention =
      map (\<lambda>name.
             \<lparr>nid = None, notify_type = ''mention'', to_username = name,
              from_username = Some ''alice'',
              json_data = Some (JObj [(''author'', JStr ''alice''), (''permlink'', JStr ''b-post'')]),
              priority_level = LOW, trx_id = Some (op_trx_id comment_repeating_mention)\<rparr>)
          [''bob'', ''bob'', ''carol-2'']"
    using handle_mention_candidates [OF o, of "\<lambda>k. ''u''" empty_follower_state]
    unfolding m by (rule conjunct2)
  show ?thesis
    unfolding c m using o by simp
qed

section \<open>Rejected follow and resteem operations\<close>

text \<open>
  C8, as amended. For a \<^verbatim>\<open>custom_json\<close> operation with id \<^verbatim>\<open>follow\<close> whose
  payload is a follow carrying the members \<^verbatim>\<open>follower\<close> and \<^verbatim>\<open>following\<close>, or a
  reblog carrying the members \<^verbatim>\<open>account\<close>, \<^verbatim>\<open>author\<close> and \<^verbatim>\<open>permlink\<close>: when the
  posting signers are not exactly one, or the one signer is not the acting account,
  \<open>notify\<close> returns the results of its two handlers without an exception and leaves
  the state as it was, so nothing is stored.
\<close>

theorem rejected_signers_produce_nothing:
  assumes "op bop = custom_json ra rpa ''follow'' (JArr (JStr tag # JObj ms # others))"
    and "tag = ''follow'' \<and> map_of ms ''follower'' = Some acting \<and>
           map_of ms ''following'' = Some target
         \<or> tag = ''reblog'' \<and> map_of ms ''account'' = Some acting \<and>
           map_of ms ''author'' = Some target \<and> map_of ms ''permlink'' = Some link"
    and "length rpa \<noteq> 1 \<or> JStr (hd rpa) \<noteq> acting"
  shows "handle_follow uuid bop w = (Inr False, w) \<and>
         handle_resteem uuid bop w = (Inr True, w) \<and>
         notify pic uuid bop w = (Inr (Gathered [False, True]), w)"
proof -
  have f: "handle_follow uuid bop w = (Inr False, w)"
    using assms by (auto simp add: handle_follow_def subscript_int_def subscript_str_def)
  have r: "handle_resteem uuid bop w = (Inr True, w)"
    using assms by (auto simp add: handle_resteem_def subscript_int_def subscript_str_def)
  show ?thesis
    using f r assms(1) by (simp add: notify_def gather_def)
qed

text \<open>
  The claim as stated fails on a payload that lacks a member: the handlers read the
  members before they check the signers, no handler validates the shape of a payload,
  and the \<open>KeyError\<close> of the missing member leaves \<open>notify\<close>. Nothing is stored.
\<close>

theorem missing_member_raises:
  "op follow_lacking_following =
     custom_json [] [''alice'', ''mallory''] ''follow''
       (JArr [JStr ''follow'', JObj [(''follower'', JStr ''alice'')]]) \<and>
   length [''alice'', ''mallory''] \<noteq> 1 \<and>
   notify (\<lambda>p. Inr False) (\<lambda>k. ''u'') follow_lacking_following empty_follower_state =
     (Inl KeyError, empty_follower_state) \<and>
   op reblog_lacking_permlink =
     custom_json [] [''mallory''] ''follow''
       (JArr [JStr ''reblog'', JObj [(''account'', JStr ''alice''), (''author'', JStr ''bob'')]]) \<and>
   JStr (hd [''mallory'']) \<noteq> JStr ''alice'' \<and>
   notify (\<lambda>p. Inr False) (\<lambda>k. ''u'') reblog_lacking_permlink empty_follower_state =
     (Inl KeyError, empty_follower_state)"
  by (simp add: follow_lacking_following_def reblog_lacking_permlink_def notify_def gather_def
      handle_follow_def handle_resteem_def subscript_int_def subscript_str_def)

theorem rejected_signers_produce_nothing_witness:
  "op follow_two_signers =
     custom_json [] [''alice'', ''mallory''] ''follow''
       (JArr [JStr ''follow'',
              JObj [(''follower'', JStr ''alice''), (''following'', JStr ''bob''),
                    (''what'', JArr [JStr ''blog''])]]) \<and>
   length [''alice'', ''mallory''] \<noteq> 1 \<and>
   notify (\<lambda>p. Inr False) (\<lambda>k. ''u'') follow_two_signers empty_follower_state =
     (Inr (Gathered [False, True]), empty_follower_state) \<and>
   JStr (hd [''mallory'']) \<noteq> JStr ''alice'' \<and>
   notify (\<lambda>p. Inr False) (\<lambda>k. ''u'') reblog_wrong_signer empty_follower_state =
     (Inr (Gathered [False, True]), empty_follower_state)"
  using rejected_signers_produce_nothing
    [where bop = follow_two_signers and ra = "[]" and rpa = "[''alice'', ''mallory'']"
       and tag = "''follow''"
       and ms = "[(''follower'', JStr ''alice''), (''following'', JStr ''bob''),
                  (''what'', JArr [JStr ''blog''])]"
       and others = "[]" and acting = "JStr ''alice''" and target = "JStr ''bob''"
       and uuid = "\<lambda>k. ''u''" and w = empty_follower_state and pic = "\<lambda>p. Inr False"]
    rejected_signers_produce_nothing
    [where bop = reblog_wrong_signer and ra = "[]" and rpa = "[''mallory'']"
       and tag = "''reblog''"
       and ms = "[(''account'', JStr ''alice''), (''author'', JStr ''bob''),
                  (''permlink'', JStr ''a-post'')]"
       and others = "[]" and acting = "JStr ''alice''" and target = "JStr ''bob''"
       and link = "JStr ''a-post''"
       and uuid = "\<lambda>k. ''u''" and w = empty_follower_state and pic = "\<lambda>p. Inr False"]
  by (simp add: follow_two_signers_def reblog_wrong_signer_def)

end
